theory Spec2Isabelle
  imports Main "HOL-Library.Sublist"
begin

section \<open>Texts\<close>

text \<open>
  A Go string holds UTF-8. The handlers only trim texts, concatenate them, compare them
  with the empty string and hand them to SQLite, which reads them one UTF-8 character at
  a time, so a text is modelled as the list of its Unicode code points.
  \<open>runes\<close> writes an ASCII literal as such a list.
\<close>

type_synonym rune = nat
type_synonym gostring = "rune list"

definition runes :: "string \<Rightarrow> gostring" where
  "runes s = map of_char s"

text \<open>
  \<open>unicode.IsSpace\<close>: in Latin-1 the characters tab, line feed, vertical tab, form feed,
  carriage return, space, U+0085 and U+00A0; beyond Latin-1 the characters with the
  White_Space property.
\<close>

definition IsSpace :: "rune \<Rightarrow> bool" where
  "IsSpace r =
     (r = 0x09 \<or> r = 0x0A \<or> r = 0x0B \<or> r = 0x0C \<or> r = 0x0D \<or> r = 0x20 \<or> r = 0x85 \<or> r = 0xA0
      \<or> r = 0x1680 \<or> (0x2000 \<le> r \<and> r \<le> 0x200A) \<or> r = 0x2028 \<or> r = 0x2029
      \<or> r = 0x202F \<or> r = 0x205F \<or> r = 0x3000)"

text \<open>\<open>strings.TrimSpace\<close>: all leading and trailing white space removed.\<close>

definition TrimSpace :: "gostring \<Rightarrow> gostring" where
  "TrimSpace s = rev (dropWhile IsSpace (rev (dropWhile IsSpace s)))"

text \<open>\<open>strings.Join\<close>.\<close>

fun Join :: "gostring list \<Rightarrow> gostring \<Rightarrow> gostring" where
  "Join [] sep = []"
| "Join [e] sep = e"
| "Join (e # es) sep = e @ sep @ Join es sep"

section \<open>The SQLite table\<close>

text \<open>
  A row of \<open>simple_memories\<close>, as the schema of \<open>NewSimpleMemoryServer\<close> declares it:
  \<open>id INTEGER PRIMARY KEY AUTOINCREMENT\<close>, the nullable \<open>title\<close>, \<open>tags\<close> and \<open>status\<close>
  (NULL is \<open>None\<close>), \<open>content TEXT NOT NULL\<close> and \<open>created_at\<close>.
\<close>

record row =
  rid :: int
  rtitle :: "gostring option"
  rtags :: "gostring option"
  rstatus :: "gostring option"
  rcontent :: gostring
  rcreated_at :: gostring

text \<open>
  The statements the handlers send. A LIKE statement carries the one pattern that the
  handlers bind to all four parameters.
\<close>

datatype sql =
    INSERT_MEMORY gostring gostring gostring gostring
  | SELECT_ALL
  | SELECT_LIKE gostring
  | DELETE_LIKE gostring

text \<open>
  The database behind the handle \<open>s.db\<close>: the rows of the table in no particular order,
  the largest id ever given out (the table \<open>sqlite_sequence\<close> that AUTOINCREMENT keeps),
  and the statements received so far.
\<close>

record database =
  tbl :: "row list"
  seq :: int
  issued :: "sql list"

subsection \<open>The LIKE operator\<close>

text \<open>
  SQLite's LIKE, without an ESCAPE clause and with the default
  \<open>case_sensitive_like = off\<close> (the source sets neither): in the pattern \<open>%\<close> (37)
  stands for any sequence of characters, \<open>_\<close> (95) for any single character, and any
  other character for itself or, among ASCII letters, for its other case.

  The matcher reads the pattern and the text as C strings, one UTF-8 character at a time:
  it stops at the first U+0000 of either, and it reads a surrogate, U+FFFE and U+FFFF as
  U+FFFD (\<open>sqlite3Utf8Read\<close>). \<open>sqlite3_value_text\<close> is a text as the matcher reads it and
  \<open>patternCompare\<close> the comparison of what was read.
\<close>

definition sqlite3Utf8Read :: "rune \<Rightarrow> rune" where
  "sqlite3Utf8Read c =
     (if (0xD800 \<le> c \<and> c \<le> 0xDFFF) \<or> c = 0xFFFE \<or> c = 0xFFFF then 0xFFFD else c)"

definition sqlite3_value_text :: "gostring \<Rightarrow> gostring" where
  "sqlite3_value_text s = map sqlite3Utf8Read (takeWhile (\<lambda>c. c \<noteq> 0) s)"

definition sqlite3Tolower :: "rune \<Rightarrow> rune" where
  "sqlite3Tolower c = (if 65 \<le> c \<and> c \<le> 90 then c + 32 else c)"

definition like_char :: "rune \<Rightarrow> rune \<Rightarrow> bool" where
  "like_char c c2 = (c = c2 \<or> (sqlite3Tolower c = sqlite3Tolower c2 \<and> c < 0x80 \<and> c2 < 0x80))"

fun patternCompare :: "gostring \<Rightarrow> gostring \<Rightarrow> bool" where
  "patternCompare [] [] = True"
| "patternCompare [] (c2 # s) = False"
| "patternCompare (c # p) [] = (c = 37 \<and> patternCompare p [])"
| "patternCompare (c # p) (c2 # s) =
     (if c = 37 then patternCompare p (c2 # s) \<or> patternCompare (c # p) s
      else (c = 95 \<or> like_char c c2) \<and> patternCompare p s)"

text \<open>
  SQL's three-valued logic: a truth value is \<open>Some b\<close> or NULL (\<open>None\<close>).
  \<open>x LIKE pattern\<close> is NULL when \<open>x\<close> is NULL; \<open>OR\<close> is true when either side is true
  and NULL when neither is true and one is NULL.
\<close>

definition LIKE :: "gostring option \<Rightarrow> gostring \<Rightarrow> bool option" where
  "LIKE x pat =
     (case x of
        None \<Rightarrow> None
      | Some s \<Rightarrow> Some (patternCompare (sqlite3_value_text pat) (sqlite3_value_text s)))"

definition sql_OR :: "bool option \<Rightarrow> bool option \<Rightarrow> bool option" where
  "sql_OR a b =
     (if a = Some True \<or> b = Some True then Some True
      else if a = None \<or> b = None then None
      else Some False)"

text \<open>
  \<open>WHERE title LIKE ? OR tags LIKE ? OR status LIKE ? OR content LIKE ?\<close>, all four
  parameters bound to \<open>pat\<close>. A row is selected when the condition is true.
\<close>

definition where_like :: "gostring \<Rightarrow> row \<Rightarrow> bool option" where
  "where_like pat r =
     sql_OR (sql_OR (sql_OR (LIKE (rtitle r) pat) (LIKE (rtags r) pat)) (LIKE (rstatus r) pat))
            (LIKE (Some (rcontent r)) pat)"

definition selected :: "gostring \<Rightarrow> row \<Rightarrow> bool" where
  "selected pat r = (where_like pat r = Some True)"

subsection \<open>Statements\<close>

text \<open>
  What a call of \<open>database/sql\<close> may report. The packages \<open>fmt\<close> and \<open>database/sql\<close>
  and the SQLite driver are not part of the repository: the errors the driver reports
  (those of SQLite itself among them, such as the refusal of a LIKE pattern longer than
  its limit), the clock of the database and the way the driver returns a time are inputs
  of each call (\<open>driver\<close>), and the formatting verbs \<open>%d\<close>, \<open>%q\<close> and \<open>%v\<close> of
  \<open>fmt.Sprintf\<close> are parameters (\<open>verbs\<close>).

  \<open>datetime_text\<close> is what \<open>rows.Scan\<close> stores into a string for a value of the column
  \<open>created_at\<close>: the column is declared DATETIME, so the driver parses the stored text as a
  time (the zero time when it is no timestamp) and \<open>database/sql\<close> formats that time with
  \<open>time.RFC3339Nano\<close>.
\<close>

datatype error =
    ArgNotFound string
  | ArgNotString string
  | SqliteFull
  | SqliteError gostring

record driver =
  exec_err :: "error option"
  query_err :: "error option"
  rows_err :: "error option"
  now :: gostring
  datetime_text :: "gostring \<Rightarrow> gostring"

record verbs =
  verb_d :: "int \<Rightarrow> gostring"
  verb_q :: "gostring \<Rightarrow> gostring"
  verb_v :: "error \<Rightarrow> gostring"

definition sent :: "sql \<Rightarrow> database \<Rightarrow> database" where
  "sent stmt d = d\<lparr>issued := issued d @ [stmt]\<rparr>"

text \<open>
  \<open>INSERT INTO simple_memories (title, tags, status, content) VALUES (?, ?, ?, ?)\<close>.
  AUTOINCREMENT gives the row one more than the largest id ever used and fails with
  SQLITE_FULL when that is the largest 64-bit integer; \<open>created_at\<close> takes its default,
  the current time. A failed statement leaves the table as it was.
\<close>

definition largest_rowid :: "database \<Rightarrow> int" where
  "largest_rowid d = fold max (map rid (tbl d)) (seq d)"

definition Exec_insert ::
  "driver \<Rightarrow> database \<Rightarrow> gostring \<Rightarrow> gostring \<Rightarrow> gostring \<Rightarrow> gostring \<Rightarrow> (error + int) \<times> database" where
  "Exec_insert drv d title tags status content =
     (let d' = sent (INSERT_MEMORY title tags status content) d in
      case exec_err drv of
        Some err \<Rightarrow> (Inl err, d')
      | None \<Rightarrow>
          if largest_rowid d \<ge> 9223372036854775807 then (Inl SqliteFull, d')
          else
            (Inr 1,
             d'\<lparr>tbl := tbl d @
                    [\<lparr>rid = largest_rowid d + 1, rtitle = Some title, rtags = Some tags,
                      rstatus = Some status, rcontent = content, rcreated_at = now drv\<rparr>],
                seq := largest_rowid d + 1\<rparr>))"

text \<open>
  \<open>DELETE FROM simple_memories WHERE title LIKE ? OR tags LIKE ? OR status LIKE ? OR
  content LIKE ?\<close>; the result carries the number of rows removed (\<open>RowsAffected\<close>).
\<close>

definition Exec_delete :: "driver \<Rightarrow> database \<Rightarrow> gostring \<Rightarrow> (error + int) \<times> database" where
  "Exec_delete drv d pat =
     (let d' = sent (DELETE_LIKE pat) d in
      case exec_err drv of
        Some err \<Rightarrow> (Inl err, d')
      | None \<Rightarrow>
          (Inr (int (length (filter (selected pat) (tbl d)))),
           d'\<lparr>tbl := filter (\<lambda>r. \<not> selected pat r) (tbl d)\<rparr>))"

text \<open>
  \<open>SELECT id, title, tags, status, content, created_at FROM simple_memories ORDER BY id
  ASC\<close>, and the same with the WHERE clause of the search. A query gives the rows that
  the cursor will deliver, or the error of \<open>db.Query\<close>.
\<close>

definition Query_all :: "driver \<Rightarrow> database \<Rightarrow> (error + row list) \<times> database" where
  "Query_all drv d =
     (let d' = sent SELECT_ALL d in
      case query_err drv of
        Some err \<Rightarrow> (Inl err, d')
      | None \<Rightarrow> (Inr (sort_key rid (tbl d)), d'))"

definition Query_like :: "driver \<Rightarrow> database \<Rightarrow> gostring \<Rightarrow> (error + row list) \<times> database" where
  "Query_like drv d pat =
     (let d' = sent (SELECT_LIKE pat) d in
      case query_err drv of
        Some err \<Rightarrow> (Inl err, d')
      | None \<Rightarrow> (Inr (sort_key rid (filter (selected pat) (tbl d))), d'))"

section \<open>The server\<close>

text \<open>
  The struct \<open>Memory\<close>, used here for what the read loops scan of a row; \<open>CreatedAt\<close> is
  the string that the handlers scan \<open>created_at\<close> into.
\<close>

record Memory =
  ID :: int
  Title :: gostring
  Tags :: gostring
  Status :: gostring
  Content :: gostring
  CreatedAt :: gostring

text \<open>
  The calls of \<open>s.logger.Printf\<close>: what was added (the title, tags and status as
  received, the content trimmed), or how many rows a query deleted.
\<close>

datatype log_entry =
    Added gostring gostring gostring gostring
  | Deleted int gostring

record SimpleMemoryServer =
  db :: database
  logger :: "log_entry list"
  disableLogging :: bool

text \<open>
  A tool request is the map of its arguments; an argument is a string or some other JSON
  value. \<open>GetString\<close> falls back to the default when the argument is missing or not a
  string, \<open>RequireString\<close> fails then.
\<close>

datatype arg = StringArg gostring | OtherArg

type_synonym CallToolRequest = "string \<Rightarrow> arg option"

definition GetString :: "CallToolRequest \<Rightarrow> string \<Rightarrow> gostring \<Rightarrow> gostring" where
  "GetString req key defaultValue =
     (case req key of Some (StringArg str) \<Rightarrow> str | _ \<Rightarrow> defaultValue)"

definition RequireString :: "CallToolRequest \<Rightarrow> string \<Rightarrow> error + gostring" where
  "RequireString req key =
     (case req key of
        Some (StringArg str) \<Rightarrow> Inr str
      | Some OtherArg \<Rightarrow> Inl (ArgNotString key)
      | None \<Rightarrow> Inl (ArgNotFound key))"

datatype CallToolResult = NewToolResultText gostring | NewToolResultError gostring

text \<open>\<open>sql.NullString\<close> and what \<open>rows.Scan\<close> stores into one.\<close>

record NullString =
  String :: gostring
  Valid :: bool

definition Scan_NullString :: "gostring option \<Rightarrow> NullString" where
  "Scan_NullString v =
     (case v of None \<Rightarrow> \<lparr>String = [], Valid = False\<rparr> | Some str \<Rightarrow> \<lparr>String = str, Valid = True\<rparr>)"

text \<open>
  The loop \<open>for rows.Next()\<close> of \<open>SimpleMemoryList\<close> and \<open>SimpleMemorySearch\<close>. A row
  of this table always scans (\<open>err == nil\<close>); it is appended when its content is not
  blank. The loop keeps what it read of each row, and the handlers format each entry with
  \<open>Sprintf_mem\<close>.
\<close>

fun scan_rows :: "driver \<Rightarrow> row list \<Rightarrow> Memory list \<Rightarrow> Memory list" where
  "scan_rows drv [] memories = memories"
| "scan_rows drv (r # rows) memories =
     (let title = Scan_NullString (rtitle r);
          tags = Scan_NullString (rtags r);
          status = Scan_NullString (rstatus r);
          content = rcontent r;
          createdAt = datetime_text drv (rcreated_at r)
      in if TrimSpace content \<noteq> []
         then scan_rows drv rows
                (memories @
                   [\<lparr>ID = rid r, Title = String title, Tags = String tags, Status = String status,
                     Content = content, CreatedAt = createdAt\<rparr>])
         else scan_rows drv rows memories)"

definition Sprintf_mem :: "verbs \<Rightarrow> Memory \<Rightarrow> gostring" where
  \<open>Sprintf_mem f m =
     runes ''{"id":'' @ verb_d f (ID m) @
     runes '',"title":'' @ verb_q f (Title m) @
     runes '',"tags":'' @ verb_q f (Tags m) @
     runes '',"status":'' @ verb_q f (Status m) @
     runes '',"content":'' @ verb_q f (Content m) @
     runes '',"created_at":'' @ verb_q f (CreatedAt m) @
     runes ''}''\<close>

subsection \<open>The four handlers\<close>

definition SimpleMemoryAdd ::
  "driver \<Rightarrow> verbs \<Rightarrow> SimpleMemoryServer \<Rightarrow> CallToolRequest \<Rightarrow> CallToolResult \<times> SimpleMemoryServer" where
  "SimpleMemoryAdd drv f s req =
     (let title = GetString req ''title'' [];
          tags = GetString req ''tags'' [];
          status = GetString req ''status'' []
      in case RequireString req ''memory'' of
           Inl err \<Rightarrow> (NewToolResultError (runes ''invalid params: '' @ verb_v f err), s)
         | Inr memory \<Rightarrow>
             (let content = TrimSpace memory in
              if content = [] then (NewToolResultError (runes ''memory cannot be empty''), s)
              else
                (case Exec_insert drv (db s) (TrimSpace title) (TrimSpace tags) (TrimSpace status)
                        content of
                   (Inl err, d) \<Rightarrow>
                     (NewToolResultError (runes ''failed to add memory: '' @ verb_v f err),
                      s\<lparr>db := d\<rparr>)
                 | (Inr res, d) \<Rightarrow>
                     (NewToolResultText (runes ''Simple-memory added.''),
                      if \<not> disableLogging s
                      then s\<lparr>db := d, logger := logger s @ [Added title tags status content]\<rparr>
                      else s\<lparr>db := d\<rparr>))))"

definition SimpleMemoryList ::
  "driver \<Rightarrow> verbs \<Rightarrow> SimpleMemoryServer \<Rightarrow> CallToolRequest \<Rightarrow> CallToolResult \<times> SimpleMemoryServer" where
  "SimpleMemoryList drv f s req =
     (case Query_all drv (db s) of
        (Inl err, d) \<Rightarrow>
          (NewToolResultError (runes ''failed to read simple-memories: '' @ verb_v f err),
           s\<lparr>db := d\<rparr>)
      | (Inr rows, d) \<Rightarrow>
          (let memories = map (Sprintf_mem f) (scan_rows drv rows []) in
           (case rows_err drv of
              Some err \<Rightarrow>
                (NewToolResultError (runes ''failed to read simple-memories: '' @ verb_v f err),
                 s\<lparr>db := d\<rparr>)
            | None \<Rightarrow>
                if length memories = 0 then (NewToolResultText [], s\<lparr>db := d\<rparr>)
                else (NewToolResultText (Join memories [10]), s\<lparr>db := d\<rparr>))))"

definition SimpleMemorySearch ::
  "driver \<Rightarrow> verbs \<Rightarrow> SimpleMemoryServer \<Rightarrow> CallToolRequest \<Rightarrow> CallToolResult \<times> SimpleMemoryServer" where
  "SimpleMemorySearch drv f s req =
     (case RequireString req ''query'' of
        Inl err \<Rightarrow> (NewToolResultError (runes ''invalid params: '' @ verb_v f err), s)
      | Inr queryParam \<Rightarrow>
          (let query = TrimSpace queryParam in
           if query = [] then (NewToolResultError (runes ''query cannot be empty''), s)
           else
             (case Query_like drv (db s) ([37] @ query @ [37]) of
                (Inl err, d) \<Rightarrow>
                  (NewToolResultError
                     (runes ''failed to search simple-memories: '' @ verb_v f err),
                   s\<lparr>db := d\<rparr>)
              | (Inr rows, d) \<Rightarrow>
                  (let matches = map (Sprintf_mem f) (scan_rows drv rows []) in
                   (case rows_err drv of
                      Some err \<Rightarrow>
                        (NewToolResultError
                           (runes ''failed to search simple-memories: '' @ verb_v f err),
                         s\<lparr>db := d\<rparr>)
                    | None \<Rightarrow>
                        if length matches = 0
                        then (NewToolResultText (runes ''No matching simple-memories found.''),
                              s\<lparr>db := d\<rparr>)
                        else (NewToolResultText (Join matches [10]), s\<lparr>db := d\<rparr>))))))"

definition SimpleMemoryDelete ::
  "driver \<Rightarrow> verbs \<Rightarrow> SimpleMemoryServer \<Rightarrow> CallToolRequest \<Rightarrow> CallToolResult \<times> SimpleMemoryServer" where
  "SimpleMemoryDelete drv f s req =
     (case RequireString req ''query'' of
        Inl err \<Rightarrow> (NewToolResultError (runes ''invalid params: '' @ verb_v f err), s)
      | Inr queryParam \<Rightarrow>
          (let query = TrimSpace queryParam in
           if query = [] then (NewToolResultError (runes ''query cannot be empty''), s)
           else
             (case Exec_delete drv (db s) ([37] @ query @ [37]) of
                (Inl err, d) \<Rightarrow>
                  (NewToolResultError
                     (runes ''failed to delete simple-memories: '' @ verb_v f err),
                   s\<lparr>db := d\<rparr>)
              | (Inr n, d) \<Rightarrow>
                  (let s' = (if \<not> disableLogging s
                             then s\<lparr>db := d, logger := logger s @ [Deleted n query]\<rparr>
                             else s\<lparr>db := d\<rparr>)
                   in if n = 0
                      then (NewToolResultText (runes ''No simple-memories deleted (no match).''),
                            s')
                      else (NewToolResultText
                              (runes ''Deleted '' @ verb_d f n @ runes '' simple-memories.''),
                            s')))))"

section \<open>Notions used in the properties\<close>

text \<open>
  The slices \<open>memories\<close> of \<open>SimpleMemoryList\<close> and \<open>matches\<close> of
  \<open>SimpleMemorySearch\<close> before they are formatted: what the read loop collects from the
  rows of the query, nothing when the query fails. \<open>query\<close> is the trimmed query.
\<close>

definition List_records :: "driver \<Rightarrow> database \<Rightarrow> Memory list" where
  "List_records drv d =
     (case fst (Query_all drv d) of Inl err \<Rightarrow> [] | Inr rows \<Rightarrow> scan_rows drv rows [])"

definition Search_records :: "driver \<Rightarrow> database \<Rightarrow> gostring \<Rightarrow> Memory list" where
  "Search_records drv d query =
     (case fst (Query_like drv d ([37] @ query @ [37])) of
        Inl err \<Rightarrow> []
      | Inr rows \<Rightarrow> scan_rows drv rows [])"

text \<open>
  A row as a caller sees it: an absent title, tags or status is the empty string, and the
  time of creation is the text the driver makes of it.
\<close>

definition or_empty :: "gostring option \<Rightarrow> gostring" where
  "or_empty v = (case v of None \<Rightarrow> [] | Some str \<Rightarrow> str)"

definition surfaced :: "driver \<Rightarrow> row \<Rightarrow> Memory" where
  "surfaced drv r =
     \<lparr>ID = rid r, Title = or_empty (rtitle r), Tags = or_empty (rtags r),
      Status = or_empty (rstatus r), Content = rcontent r,
      CreatedAt = datetime_text drv (rcreated_at r)\<rparr>"

text \<open>
  The results that carry given records: List joins their lines, Search does the same or
  says that there is none, Delete reports a count.
\<close>

definition List_result :: "verbs \<Rightarrow> Memory list \<Rightarrow> CallToolResult" where
  "List_result f ms = NewToolResultText (Join (map (Sprintf_mem f) ms) [10])"

definition Search_result :: "verbs \<Rightarrow> Memory list \<Rightarrow> CallToolResult" where
  "Search_result f ms =
     (if ms = [] then NewToolResultText (runes ''No matching simple-memories found.'')
      else NewToolResultText (Join (map (Sprintf_mem f) ms) [10]))"

definition Delete_result :: "verbs \<Rightarrow> int \<Rightarrow> CallToolResult" where
  "Delete_result f n =
     (if n = 0 then NewToolResultText (runes ''No simple-memories deleted (no match).'')
      else NewToolResultText (runes ''Deleted '' @ verb_d f n @ runes '' simple-memories.''))"

text \<open>
  The match of the specification: the query occurs, as it is written, as a contiguous part
  of the title, the tags, the status or the content. An absent field contains nothing.
\<close>

definition spec_contains :: "gostring \<Rightarrow> gostring option \<Rightarrow> bool" where
  "spec_contains q v = (case v of None \<Rightarrow> False | Some str \<Rightarrow> sublist q str)"

definition spec_matches :: "gostring \<Rightarrow> row \<Rightarrow> bool" where
  "spec_matches q r =
     (spec_contains q (rtitle r) \<or> spec_contains q (rtags r) \<or> spec_contains q (rstatus r)
      \<or> spec_contains q (Some (rcontent r)))"

text \<open>
  The same with both sides as SQLite reads a text (up to its first U+0000, with U+FFFE,
  U+FFFF and the surrogates read as U+FFFD) and with their ASCII letters in lower case.
\<close>

definition like_fold :: "gostring \<Rightarrow> gostring" where
  "like_fold str = map sqlite3Tolower (sqlite3_value_text str)"

definition contains_nocase :: "gostring \<Rightarrow> gostring option \<Rightarrow> bool" where
  "contains_nocase q v =
     (case v of None \<Rightarrow> False | Some str \<Rightarrow> sublist (like_fold q) (like_fold str))"

definition matches_nocase :: "gostring \<Rightarrow> row \<Rightarrow> bool" where
  "matches_nocase q r =
     (contains_nocase q (rtitle r) \<or> contains_nocase q (rtags r) \<or> contains_nocase q (rstatus r)
      \<or> contains_nocase q (Some (rcontent r)))"

text \<open>A text that neither starts nor ends with white space.\<close>

definition no_outer_space :: "gostring \<Rightarrow> bool" where
  "no_outer_space str = (str = [] \<or> (\<not> IsSpace (hd str) \<and> \<not> IsSpace (last str)))"

subsection \<open>Sample inputs\<close>

text \<open>
  A call in which the driver reports no error, a formatter that writes numbers in decimal
  and puts a text between double quotes, and a server that logs. The sample driver returns
  the timestamps of the sample rows as \<open>time.RFC3339Nano\<close> prints them, a whole second
  without its fraction, and any other text as the zero time.
\<close>

definition sample_datetime :: "gostring \<Rightarrow> gostring" where
  "sample_datetime t =
     (if t = runes ''2025-01-01T00:00:00.000Z'' then runes ''2025-01-01T00:00:00Z''
      else if t = runes ''2025-01-02T00:00:00.000Z'' then runes ''2025-01-02T00:00:00Z''
      else if t = runes ''2025-01-03T00:00:00.000Z'' then runes ''2025-01-03T00:00:00Z''
      else runes ''0001-01-01T00:00:00Z'')"

definition ok_driver :: driver where
  "ok_driver = \<lparr>exec_err = None, query_err = None, rows_err = None,
                 now = runes ''2025-01-01T00:00:00.000Z'', datetime_text = sample_datetime\<rparr>"

fun decimal :: "nat \<Rightarrow> gostring" where
  "decimal n = (if n < 10 then [48 + n] else decimal (n div 10) @ [48 + n mod 10])"

definition sample_verbs :: verbs where
  "sample_verbs =
     \<lparr>verb_d = (\<lambda>i. if i < 0 then 45 # decimal (nat (- i)) else decimal (nat i)),
      verb_q = (\<lambda>str. [34] @ str @ [34]),
      verb_v = (\<lambda>err. case err of
                  ArgNotFound key \<Rightarrow> runes ''required argument not found''
                | ArgNotString key \<Rightarrow> runes ''argument is not a string''
                | SqliteFull \<Rightarrow> runes ''database or disk is full''
                | SqliteError msg \<Rightarrow> msg)\<rparr>"

definition db_of :: "row list \<Rightarrow> database" where
  "db_of rows = \<lparr>tbl = rows, seq = 3, issued = []\<rparr>"

definition server_of :: "row list \<Rightarrow> SimpleMemoryServer" where
  "server_of rows = \<lparr>db = db_of rows, logger = [], disableLogging = False\<rparr>"

definition request_of :: "string \<Rightarrow> string \<Rightarrow> CallToolRequest" where
  "request_of key str = (\<lambda>k. if k = key then Some (StringArg (runes str)) else None)"

definition no_arguments :: CallToolRequest where
  "no_arguments = (\<lambda>k. None)"

definition add_request :: CallToolRequest where
  "add_request =
     (\<lambda>k. if k = ''memory'' then Some (StringArg (runes '' note ''))
          else if k = ''title'' then Some (StringArg (runes '' X ''))
          else if k = ''tags'' then Some (StringArg (runes ''go,db ''))
          else None)"

text \<open>
  Three rows: a note titled Go whose content does not mention it, a row whose content
  is blank, and a plain note with no title, tags or status.
\<close>

definition row_go :: row where
  "row_go = \<lparr>rid = 1, rtitle = Some (runes ''Go''), rtags = Some [], rstatus = Some [],
             rcontent = runes ''unrelated'', rcreated_at = runes ''2025-01-01T00:00:00.000Z''\<rparr>"

definition row_blank :: row where
  "row_blank = \<lparr>rid = 2, rtitle = Some (runes ''temp''), rtags = None, rstatus = None,
                rcontent = runes ''  '', rcreated_at = runes ''2025-01-02T00:00:00.000Z''\<rparr>"

definition row_plain :: row where
  "row_plain = \<lparr>rid = 3, rtitle = None, rtags = None, rstatus = None,
                rcontent = runes ''keep C'', rcreated_at = runes ''2025-01-03T00:00:00.000Z''\<rparr>"

text \<open>A row whose content holds the character U+0000.\<close>

definition row_nul :: row where
  "row_nul = \<lparr>rid = 4, rtitle = Some (runes ''banana''), rtags = None, rstatus = None,
              rcontent = runes ''a'' @ [0] @ runes ''go'',
              rcreated_at = runes ''2025-01-03T00:00:00.000Z''\<rparr>"

section \<open>Pattern matching\<close>

lemma like_char_fold: "like_char c c2 \<longleftrightarrow> sqlite3Tolower c = sqlite3Tolower c2"
  unfolding like_char_def sqlite3Tolower_def by (auto split: if_splits)

lemma patternCompare_percent:
  "patternCompare (37 # p) s \<longleftrightarrow> (\<exists>k\<le>length s. patternCompare p (drop k s))"
proof (induction s)
  case Nil
  then show ?case by simp
next
  case (Cons c2 s)
  have "(\<exists>k\<le>length (c2 # s). patternCompare p (drop k (c2 # s)))
        \<longleftrightarrow> patternCompare p (c2 # s) \<or> (\<exists>k\<le>length s. patternCompare p (drop k s))"
    (is "?L \<longleftrightarrow> ?R")
  proof
    assume ?L
    then obtain k where k: "k \<le> length (c2 # s)" "patternCompare p (drop k (c2 # s))" by blast
    show ?R
    proof (cases k)
      case 0
      with k show ?thesis by simp
    next
      case (Suc j)
      with k show ?thesis by auto
    qed
  next
    assume ?R
    then show ?L
    proof
      assume "patternCompare p (c2 # s)"
      then have "patternCompare p (drop 0 (c2 # s))" by simp
      then show ?L by blast
    next
      assume "\<exists>k\<le>length s. patternCompare p (drop k s)"
      then obtain k where "k \<le> length s" "patternCompare p (drop k s)" by blast
      then have "Suc k \<le> length (c2 # s)" "patternCompare p (drop (Suc k) (c2 # s))" by simp_all
      then show ?L by blast
    qed
  qed
  with Cons show ?case by simp
qed

lemma patternCompare_plain:
  "\<forall>c\<in>set q. c \<noteq> 37 \<and> c \<noteq> 95 \<Longrightarrow>
   patternCompare (q @ p) s \<longleftrightarrow>
     (length q \<le> length s \<and> map sqlite3Tolower q = map sqlite3Tolower (take (length q) s)
      \<and> patternCompare p (drop (length q) s))"
proof (induction q arbitrary: s)
  case Nil
  then show ?case by simp
next
  case (Cons c q)
  show ?case
  proof (cases s)
    case Nil
    with Cons.prems show ?thesis by simp
  next
    case (Cons c2 s')
    with Cons.prems Cons.IH[of s'] show ?thesis by (auto simp: like_char_fold)
  qed
qed

lemma patternCompare_any: "patternCompare [37] s"
  by (induction s) simp_all

lemma sublist_take_drop:
  "sublist xs ys \<longleftrightarrow> (\<exists>k\<le>length ys. length xs \<le> length (drop k ys) \<and> xs = take (length xs) (drop k ys))"
proof
  assume "sublist xs ys"
  then obtain ps ss where "ys = ps @ xs @ ss" by (auto simp: sublist_def)
  then have "length ps \<le> length ys \<and> length xs \<le> length (drop (length ps) ys)
             \<and> xs = take (length xs) (drop (length ps) ys)" by simp
  then show "\<exists>k\<le>length ys. length xs \<le> length (drop k ys) \<and> xs = take (length xs) (drop k ys)"
    by blast
next
  assume "\<exists>k\<le>length ys. length xs \<le> length (drop k ys) \<and> xs = take (length xs) (drop k ys)"
  then obtain k where k: "xs = take (length xs) (drop k ys)" by blast
  have "ys = take k ys @ take (length xs) (drop k ys) @ drop (length xs) (drop k ys)"
    by (metis append_take_drop_id)
  with k have "ys = take k ys @ xs @ drop (length xs) (drop k ys)" by simp
  then show "sublist xs ys" unfolding sublist_def by blast
qed

lemma patternCompare_contains:
  assumes "\<forall>c\<in>set q. c \<noteq> 37 \<and> c \<noteq> 95"
  shows "patternCompare ([37] @ q @ [37]) s \<longleftrightarrow> sublist (map sqlite3Tolower q) (map sqlite3Tolower s)"
proof -
  have "patternCompare ([37] @ q @ [37]) s
        \<longleftrightarrow> (\<exists>k\<le>length s. patternCompare (q @ [37]) (drop k s))"
    using patternCompare_percent[of "q @ [37]" s] by simp
  also have "\<dots> \<longleftrightarrow> (\<exists>k\<le>length s. length q \<le> length (drop k s)
        \<and> map sqlite3Tolower q = map sqlite3Tolower (take (length q) (drop k s)))"
    using patternCompare_plain[OF assms, of "[37]"] patternCompare_any by simp
  also have "\<dots> \<longleftrightarrow> sublist (map sqlite3Tolower q) (map sqlite3Tolower s)"
    unfolding sublist_take_drop[of "map sqlite3Tolower q" "map sqlite3Tolower s"]
    by (simp add: take_map drop_map)
  finally show ?thesis .
qed


section \<open>Trimming\<close>

lemma dropWhile_all_iff: "(\<forall>c\<in>set (dropWhile P s). P c) \<longleftrightarrow> (\<forall>c\<in>set s. P c)"
proof
  assume h: "\<forall>c\<in>set (dropWhile P s). P c"
  have "dropWhile P s = []"
  proof (rule ccontr)
    assume ne: "dropWhile P s \<noteq> []"
    then have "\<not> P (hd (dropWhile P s))" by (rule hd_dropWhile)
    moreover from ne have "hd (dropWhile P s) \<in> set (dropWhile P s)" by simp
    ultimately show False using h by blast
  qed
  then show "\<forall>c\<in>set s. P c" by (simp add: dropWhile_eq_Nil_conv)
next
  assume "\<forall>c\<in>set s. P c"
  then show "\<forall>c\<in>set (dropWhile P s). P c" by (blast dest: set_dropWhileD)
qed

lemma TrimSpace_empty_iff: "TrimSpace s = [] \<longleftrightarrow> (\<forall>c\<in>set s. IsSpace c)"
  unfolding TrimSpace_def by (simp add: dropWhile_eq_Nil_conv dropWhile_all_iff)

lemma TrimSpace_no_outer_space: "no_outer_space (TrimSpace s)"
proof (cases "TrimSpace s = []")
  case True
  then show ?thesis by (simp add: no_outer_space_def)
next
  case False
  let ?a = "dropWhile IsSpace s"
  let ?b = "dropWhile IsSpace (rev ?a)"
  from False have b: "?b \<noteq> []" by (simp add: TrimSpace_def)
  then have hb: "\<not> IsSpace (hd ?b)" by (rule hd_dropWhile)
  have last: "last (TrimSpace s) = hd ?b" using b by (simp add: TrimSpace_def last_rev)
  have a: "?a \<noteq> []"
  proof
    assume "?a = []"
    then have "?b = []" by (metis dropWhile.simps(1) rev.simps(1))
    with b show False by contradiction
  qed
  then have ha: "\<not> IsSpace (hd ?a)" by (rule hd_dropWhile)
  obtain n where n: "?b = drop n (rev ?a)" using dropWhile_eq_drop by metis
  have "hd (TrimSpace s) = last ?b" using b by (simp add: TrimSpace_def hd_rev)
  also have "\<dots> = last (rev ?a)" using b n by (metis last_drop drop_eq_Nil not_le)
  also have "\<dots> = hd ?a" using a by (simp add: last_rev)
  finally have "\<not> IsSpace (hd (TrimSpace s))" using ha by simp
  with hb last show ?thesis by (simp add: no_outer_space_def)
qed

section \<open>The scanning loop\<close>

lemma Scan_NullString_String: "String (Scan_NullString v) = or_empty v"
  by (cases v) (simp_all add: Scan_NullString_def or_empty_def)

lemma scan_rows_acc:
  "scan_rows drv rows memories =
     memories @ map (surfaced drv) (filter (\<lambda>r. TrimSpace (rcontent r) \<noteq> []) rows)"
  by (induction rows arbitrary: memories)
     (simp_all add: Let_def surfaced_def Scan_NullString_String)

section \<open>What SQLite reads of a query\<close>

lemma sqlite3Utf8Read_wildcard:
  "sqlite3Utf8Read c = 37 \<longleftrightarrow> c = 37" "sqlite3Utf8Read c = 95 \<longleftrightarrow> c = 95"
  by (simp_all add: sqlite3Utf8Read_def)

lemma takeWhile_no_NUL: "0 \<notin> set q \<Longrightarrow> takeWhile (\<lambda>c. c \<noteq> 0) q = q"
  by (induction q) auto

lemma sqlite3_value_text_query:
  assumes "0 \<notin> set q"
  shows "sqlite3_value_text ([37] @ q @ [37]) = [37] @ map sqlite3Utf8Read q @ [37]"
proof -
  from assms have "0 \<notin> set ([37] @ q @ [37::nat])" by simp
  then have "takeWhile (\<lambda>c. c \<noteq> 0) ([37] @ q @ [37]) = [37] @ q @ [37]"
    by (rule takeWhile_no_NUL)
  then show ?thesis by (simp add: sqlite3_value_text_def sqlite3Utf8Read_def)
qed

lemma like_fold_query:
  assumes "0 \<notin> set q"
  shows "like_fold q = map sqlite3Tolower (map sqlite3Utf8Read q)"
  unfolding like_fold_def sqlite3_value_text_def takeWhile_no_NUL[OF assms] by (rule refl)

lemma selected_iff:
  "selected pat r \<longleftrightarrow>
     (LIKE (rtitle r) pat = Some True \<or> LIKE (rtags r) pat = Some True
      \<or> LIKE (rstatus r) pat = Some True \<or> LIKE (Some (rcontent r)) pat = Some True)"
  by (auto simp: selected_def where_like_def sql_OR_def LIKE_def split: option.splits)

lemma LIKE_contains:
  assumes "\<forall>c\<in>set q. c \<noteq> 0 \<and> c \<noteq> 37 \<and> c \<noteq> 95"
  shows "LIKE v ([37] @ q @ [37]) = Some True \<longleftrightarrow> contains_nocase q v"
proof (cases v)
  case None
  then show ?thesis by (simp add: LIKE_def contains_nocase_def)
next
  case (Some str)
  from assms have nul: "0 \<notin> set q" by auto
  from assms have wild: "\<forall>c\<in>set (map sqlite3Utf8Read q). c \<noteq> 37 \<and> c \<noteq> 95"
    by (simp add: sqlite3Utf8Read_wildcard)
  have "patternCompare (sqlite3_value_text ([37] @ q @ [37])) (sqlite3_value_text str)
        \<longleftrightarrow> sublist (like_fold q) (like_fold str)"
    unfolding sqlite3_value_text_query[OF nul] like_fold_query[OF nul]
    using patternCompare_contains[OF wild, of "sqlite3_value_text str"]
    by (simp add: like_fold_def)
  with Some show ?thesis by (simp add: LIKE_def contains_nocase_def)
qed

lemma selected_matches_nocase:
  assumes "\<forall>c\<in>set q. c \<noteq> 0 \<and> c \<noteq> 37 \<and> c \<noteq> 95"
  shows "selected ([37] @ q @ [37]) r \<longleftrightarrow> matches_nocase q r"
  unfolding selected_iff matches_nocase_def LIKE_contains[OF assms] by (rule refl)

section \<open>What the handlers return\<close>

lemma RequireString_string: "req key = Some (StringArg str) \<Longrightarrow> RequireString req key = Inr str"
  by (simp add: RequireString_def)

lemma SimpleMemoryList_returns:
  assumes "query_err drv = None" and "rows_err drv = None"
  shows "fst (SimpleMemoryList drv f s req) =
           List_result f
             (map (surfaced drv)
                (filter (\<lambda>r. TrimSpace (rcontent r) \<noteq> []) (sort_key rid (tbl (db s)))))"
  using assms
  by (simp add: SimpleMemoryList_def Query_all_def scan_rows_acc List_result_def Let_def)

lemma SimpleMemorySearch_returns:
  assumes "req ''query'' = Some (StringArg queryParam)" and "TrimSpace queryParam \<noteq> []"
    and "query_err drv = None" and "rows_err drv = None"
  shows "fst (SimpleMemorySearch drv f s req) =
           Search_result f
             (map (surfaced drv)
                (filter (\<lambda>r. TrimSpace (rcontent r) \<noteq> [])
                   (sort_key rid
                      (filter (selected ([37] @ TrimSpace queryParam @ [37])) (tbl (db s))))))"
  using assms
  by (simp add: SimpleMemorySearch_def RequireString_string Query_like_def scan_rows_acc
      Search_result_def Let_def)

lemma SimpleMemoryDelete_returns:
  assumes "req ''query'' = Some (StringArg queryParam)"
    and "TrimSpace queryParam \<noteq> []"
    and "exec_err drv = None"
  shows "fst (SimpleMemoryDelete drv f s req) =
           Delete_result f
             (int (length (filter (selected ([37] @ TrimSpace queryParam @ [37])) (tbl (db s)))))"
    and "tbl (db (snd (SimpleMemoryDelete drv f s req))) =
           filter (\<lambda>r. \<not> selected ([37] @ TrimSpace queryParam @ [37]) r) (tbl (db s))"
  using assms
  by (simp_all add: SimpleMemoryDelete_def RequireString_string Exec_delete_def sent_def
      Delete_result_def Let_def)

lemma List_records_eq:
  "List_records drv d =
     (if query_err drv = None
      then map (surfaced drv) (filter (\<lambda>r. TrimSpace (rcontent r) \<noteq> []) (sort_key rid (tbl d)))
      else [])"
  by (auto simp: List_records_def Query_all_def scan_rows_acc Let_def)

lemma Search_records_eq:
  "Search_records drv d q =
     (if query_err drv = None
      then map (surfaced drv)
             (filter (\<lambda>r. TrimSpace (rcontent r) \<noteq> [])
                (sort_key rid (filter (selected ([37] @ q @ [37])) (tbl d))))
      else [])"
  by (auto simp: Search_records_def Query_like_def scan_rows_acc Let_def)

lemma filter_nonblank_id:
  assumes "\<forall>r\<in>set rows. TrimSpace (rcontent r) \<noteq> []"
  shows "filter (\<lambda>r. TrimSpace (rcontent r) \<noteq> []) (sort_key rid (filter P rows))
         = sort_key rid (filter P rows)"
  using assms by (auto intro!: filter_True)

lemma request_of_query: "request_of ''query'' str ''query'' = Some (StringArg (runes str))"
  by (simp add: request_of_def)

lemma distinct_map_sort_key:
  "distinct (map f (sort_key f xs)) \<longleftrightarrow> distinct (map f xs)"
  by (simp add: distinct_map)

lemma strictly_ascending_sorted_rows:
  assumes "distinct (map rid rows)"
  shows "sorted_wrt (<) (map rid (filter P (sort_key rid (filter Q rows))))"
proof -
  have d: "distinct (map rid (filter Q rows))" using assms by (rule distinct_map_filter)
  have "sorted_wrt (<) (map rid (sort_key rid (filter Q rows)))"
    using d by (simp add: strict_sorted_iff distinct_map_sort_key)
  then have "sorted_wrt (\<lambda>x y. rid x < rid y) (sort_key rid (filter Q rows))"
    by (simp add: sorted_wrt_map)
  then have "sorted_wrt (\<lambda>x y. rid x < rid y) (filter P (sort_key rid (filter Q rows)))"
    by (rule sorted_wrt_filter)
  then show ?thesis by (simp add: sorted_wrt_map)
qed

section \<open>The sample inputs\<close>

lemma TrimSpace_samples:
  "TrimSpace (runes '' note '') = runes ''note''"
  "TrimSpace (runes '' X '') = runes ''X''"
  "TrimSpace (runes ''go,db '') = runes ''go,db''"
  "TrimSpace (runes ''go'') = runes ''go''"
  "TrimSpace (runes ''temp'') = runes ''temp''"
  "TrimSpace (runes ''keep'') = runes ''keep''"
  "TrimSpace (runes ''xyz'') = runes ''xyz''"
  "TrimSpace [] = []"
  by (simp_all add: runes_def TrimSpace_def IsSpace_def)

lemma sample_queries_not_empty:
  "runes ''go'' \<noteq> []" "runes ''temp'' \<noteq> []" "runes ''keep'' \<noteq> []" "runes ''xyz'' \<noteq> []"
  by (simp_all add: runes_def)

lemma sample_rows_content:
  "TrimSpace (rcontent row_go) \<noteq> []"
  "TrimSpace (rcontent row_blank) = []"
  "TrimSpace (rcontent row_plain) \<noteq> []"
  by (simp_all add: row_go_def row_blank_def row_plain_def runes_def TrimSpace_def IsSpace_def)

lemma sample_rows_rid: "rid row_go = 1" "rid row_blank = 2" "rid row_plain = 3"
  by (simp_all add: row_go_def row_blank_def row_plain_def)

lemma sample_selected:
  "selected ([37] @ runes ''go'' @ [37]) row_go"
  "\<not> selected ([37] @ runes ''go'' @ [37]) row_plain"
  "selected ([37] @ runes ''temp'' @ [37]) row_blank"
  "selected ([37] @ runes ''keep'' @ [37]) row_plain"
  "\<not> selected ([37] @ runes ''xyz'' @ [37]) row_go"
  "\<not> selected ([37] @ runes ''xyz'' @ [37]) row_plain"
  by (simp_all add: selected_iff LIKE_def sqlite3_value_text_def sqlite3Utf8Read_def
      row_go_def row_blank_def row_plain_def runes_def like_char_def sqlite3Tolower_def)

lemma sample_server: "tbl (db (server_of rows)) = rows"
  by (simp add: server_of_def db_of_def)

lemma sample_driver:
  "exec_err ok_driver = None" "query_err ok_driver = None" "rows_err ok_driver = None"
  by (simp_all add: ok_driver_def)

lemma sample_surfaced:
  "surfaced ok_driver row_go =
     \<lparr>ID = 1, Title = runes ''Go'', Tags = [], Status = [], Content = runes ''unrelated'',
      CreatedAt = runes ''2025-01-01T00:00:00Z''\<rparr>"
  "surfaced ok_driver row_plain =
     \<lparr>ID = 3, Title = [], Tags = [], Status = [], Content = runes ''keep C'',
      CreatedAt = runes ''2025-01-03T00:00:00Z''\<rparr>"
  by (simp_all add: surfaced_def or_empty_def ok_driver_def sample_datetime_def row_go_def
      row_plain_def runes_def)

lemma sample_lines:
  \<open>Sprintf_mem sample_verbs (surfaced ok_driver row_go) = runes
     ''{"id":1,"title":"Go","tags":"","status":"","content":"unrelated","created_at":"2025-01-01T00:00:00Z"}''\<close>
  \<open>Sprintf_mem sample_verbs (surfaced ok_driver row_plain) = runes
     ''{"id":3,"title":"","tags":"","status":"","content":"keep C","created_at":"2025-01-03T00:00:00Z"}''\<close>
  unfolding sample_surfaced by (simp_all add: Sprintf_mem_def sample_verbs_def runes_def)

lemma sample_count: "verb_d sample_verbs 1 = runes ''1''"
  by (simp add: sample_verbs_def runes_def)

lemma sample_sort: "sort_key rid [row_plain, row_go] = [row_go, row_plain]"
  by (simp add: sample_rows_rid)

lemma sample_sort3: "sort_key rid [row_plain, row_blank, row_go] = [row_go, row_blank, row_plain]"
  by (simp add: sample_rows_rid)

lemma not_spec_matches_go: "\<not> spec_matches (runes ''go'') row_go"
  by (simp add: spec_matches_def spec_contains_def row_go_def runes_def sublist_code)

lemma TrimSpace_wild: "TrimSpace (runes ''k_ep'') = runes ''k_ep''" "runes ''k_ep'' \<noteq> []"
  by (simp_all add: runes_def TrimSpace_def IsSpace_def)

section \<open>Properties\<close>

subsection \<open>Which records a search returns\<close>

text \<open>
  C1, as the code has it: for every query that, trimmed, is not empty and contains none of
  \<open>%\<close>, \<open>_\<close> and U+0000, Search, when the query runs, returns the lines of exactly the
  records whose content is not blank and in which the trimmed query occurs, the case of
  ASCII letters ignored, as a contiguous part of the title, the tags, the status or the
  content, in ascending id order; an absent field contains nothing, and SQLite reads a
  text up to its first U+0000, with U+FFFE and U+FFFF as U+FFFD.
\<close>

theorem C1_search_matches_nocase:
  assumes "req ''query'' = Some (StringArg queryParam)"
    and "TrimSpace queryParam \<noteq> []"
    and "\<forall>c\<in>set (TrimSpace queryParam). c \<noteq> 0 \<and> c \<noteq> 37 \<and> c \<noteq> 95"
    and "query_err drv = None" and "rows_err drv = None"
  shows "fst (SimpleMemorySearch drv f s req) =
           Search_result f
             (map (surfaced drv)
                (filter (\<lambda>r. TrimSpace (rcontent r) \<noteq> [] \<and> matches_nocase (TrimSpace queryParam) r)
                   (sort_key rid (tbl (db s)))))"
proof -
  let ?q = "TrimSpace queryParam"
  have "selected ([37] @ ?q @ [37]) = matches_nocase ?q"
    by (rule ext) (rule selected_matches_nocase[OF assms(3)])
  then have "sort_key rid (filter (selected ([37] @ ?q @ [37])) (tbl (db s)))
        = filter (matches_nocase ?q) (sort_key rid (tbl (db s)))"
    by (simp only: filter_sort)
  moreover have "fst (SimpleMemorySearch drv f s req) =
           Search_result f
             (map (surfaced drv)
                (filter (\<lambda>r. TrimSpace (rcontent r) \<noteq> [])
                   (sort_key rid (filter (selected ([37] @ ?q @ [37])) (tbl (db s))))))"
    using assms(1,2,4,5)
    by (simp add: SimpleMemorySearch_def RequireString_def Query_like_def scan_rows_acc
        Search_result_def Let_def)
  ultimately show ?thesis by (simp add: conj_commute)
qed

theorem C1_search_matches_nocase_witness:
  \<open>request_of ''query'' ''go'' ''query'' = Some (StringArg (runes ''go''))
   \<and> TrimSpace (runes ''go'') \<noteq> []
   \<and> 0 \<notin> set (TrimSpace (runes ''go'')) \<and> 37 \<notin> set (TrimSpace (runes ''go''))
   \<and> 95 \<notin> set (TrimSpace (runes ''go''))
   \<and> query_err ok_driver = None \<and> rows_err ok_driver = None
   \<and> fst (SimpleMemorySearch ok_driver sample_verbs (server_of [row_plain, row_go])
            (request_of ''query'' ''go''))
      = NewToolResultText (runes
          ''{"id":1,"title":"Go","tags":"","status":"","content":"unrelated","created_at":"2025-01-01T00:00:00Z"}'')\<close>
proof -
  have h1: "request_of ''query'' ''go'' ''query'' = Some (StringArg (runes ''go''))"
    by (rule request_of_query)
  have h2: "TrimSpace (runes ''go'') \<noteq> []"
    unfolding TrimSpace_samples by (rule sample_queries_not_empty)
  have h3: "\<forall>c\<in>set (TrimSpace (runes ''go'')). c \<noteq> 0 \<and> c \<noteq> 37 \<and> c \<noteq> 95"
    unfolding TrimSpace_samples by (simp add: runes_def)
  have h3': "0 \<notin> set (TrimSpace (runes ''go'')) \<and> 37 \<notin> set (TrimSpace (runes ''go''))
             \<and> 95 \<notin> set (TrimSpace (runes ''go''))"
    unfolding TrimSpace_samples by (simp add: runes_def)
  have m: "matches_nocase (TrimSpace (runes ''go'')) row_go"
          "\<not> matches_nocase (TrimSpace (runes ''go'')) row_plain"
    using sample_selected(1,2) h3
    by (simp_all only: TrimSpace_samples selected_matches_nocase simp_thms)
  have "fst (SimpleMemorySearch ok_driver sample_verbs (server_of [row_plain, row_go])
            (request_of ''query'' ''go''))
        = Search_result sample_verbs [surfaced ok_driver row_go]"
    unfolding C1_search_matches_nocase[where req="request_of ''query'' ''go''",
        OF h1 h2 h3 sample_driver(2,3)] sample_server sample_sort
    by (simp add: m sample_rows_content)
  then have "fst (SimpleMemorySearch ok_driver sample_verbs (server_of [row_plain, row_go])
            (request_of ''query'' ''go''))
      = NewToolResultText (Sprintf_mem sample_verbs (surfaced ok_driver row_go))"
    by (simp add: Search_result_def)
  with h1 h2 h3' sample_driver(2,3) show ?thesis unfolding sample_lines by simp
qed

text \<open>
  C1 as it is written fails: the query \<open>go\<close> is no part of the title \<open>Go\<close> or of any
  other field of the sample row, and the search returns the row.
\<close>

theorem C1_counterexample:
  \<open>fst (SimpleMemorySearch ok_driver sample_verbs (server_of [row_go])
          (request_of ''query'' ''go''))
     = NewToolResultText (runes
         ''{"id":1,"title":"Go","tags":"","status":"","content":"unrelated","created_at":"2025-01-01T00:00:00Z"}'')
   \<and> \<not> spec_matches (runes ''go'') row_go\<close>
proof -
  have q: "request_of ''query'' ''go'' ''query'' = Some (StringArg (runes ''go''))"
    by (rule request_of_query)
  have ne: "TrimSpace (runes ''go'') \<noteq> []"
    unfolding TrimSpace_samples by (rule sample_queries_not_empty)
  have "fst (SimpleMemorySearch ok_driver sample_verbs (server_of [row_go])
          (request_of ''query'' ''go''))
        = Search_result sample_verbs [surfaced ok_driver row_go]"
    unfolding SimpleMemorySearch_returns[where req="request_of ''query'' ''go''",
        OF q ne sample_driver(2,3)] sample_server TrimSpace_samples
    by (simp add: sample_selected[simplified] sample_rows_content)
  then have "fst (SimpleMemorySearch ok_driver sample_verbs (server_of [row_go])
          (request_of ''query'' ''go''))
        = NewToolResultText (Sprintf_mem sample_verbs (surfaced ok_driver row_go))"
    by (simp add: Search_result_def)
  with not_spec_matches_go show ?thesis unfolding sample_lines by simp
qed

text \<open>
  The handlers put the query between two \<open>%\<close> as it is, so a \<open>%\<close> or \<open>_\<close> in it is a
  wildcard of the pattern: the query \<open>k_ep\<close> returns the sample row, in which it does not
  occur.
\<close>

lemma query_wildcards_are_interpreted:
  \<open>fst (SimpleMemorySearch ok_driver sample_verbs (server_of [row_plain])
          (request_of ''query'' ''k_ep''))
     = NewToolResultText (runes
         ''{"id":3,"title":"","tags":"","status":"","content":"keep C","created_at":"2025-01-03T00:00:00Z"}'')
   \<and> \<not> matches_nocase (runes ''k_ep'') row_plain\<close>
proof -
  have q: "request_of ''query'' ''k_ep'' ''query'' = Some (StringArg (runes ''k_ep''))"
    by (rule request_of_query)
  have ne: "TrimSpace (runes ''k_ep'') \<noteq> []" unfolding TrimSpace_wild(1) by (rule TrimSpace_wild)
  have sel: "selected (37 # runes ''k_ep'' @ [37]) row_plain"
    by (simp add: selected_iff LIKE_def sqlite3_value_text_def sqlite3Utf8Read_def
        row_plain_def runes_def like_char_def sqlite3Tolower_def)
  have "fst (SimpleMemorySearch ok_driver sample_verbs (server_of [row_plain])
          (request_of ''query'' ''k_ep''))
        = NewToolResultText (Sprintf_mem sample_verbs (surfaced ok_driver row_plain))"
    unfolding SimpleMemorySearch_returns[where req="request_of ''query'' ''k_ep''",
        OF q ne sample_driver(2,3)] sample_server TrimSpace_wild(1)
    by (simp add: sel sample_rows_content Search_result_def)
  moreover have "\<not> matches_nocase (runes ''k_ep'') row_plain"
    by (simp add: matches_nocase_def contains_nocase_def like_fold_def sqlite3_value_text_def
        sqlite3Utf8Read_def sqlite3Tolower_def row_plain_def runes_def sublist_code)
  ultimately show ?thesis unfolding sample_lines by simp
qed

text \<open>
  SQLite reads a text and a pattern up to their first U+0000: the search for \<open>go\<close> does
  not find the row whose content is \<open>a\<close>, U+0000, \<open>go\<close>, and a query that is \<open>a\<close>,
  U+0000, \<open>zz\<close> selects the row, whose title ends with \<open>a\<close>.
\<close>

lemma sqlite_reads_up_to_NUL:
  "fst (SimpleMemorySearch ok_driver sample_verbs (server_of [row_nul])
          (request_of ''query'' ''go''))
     = NewToolResultText (runes ''No matching simple-memories found.'')
   \<and> spec_matches (runes ''go'') row_nul
   \<and> selected ([37] @ (runes ''a'' @ [0] @ runes ''zz'') @ [37]) row_nul
   \<and> \<not> spec_matches (runes ''a'' @ [0] @ runes ''zz'') row_nul"
proof -
  have q: "request_of ''query'' ''go'' ''query'' = Some (StringArg (runes ''go''))"
    by (rule request_of_query)
  have ne: "TrimSpace (runes ''go'') \<noteq> []"
    unfolding TrimSpace_samples by (rule sample_queries_not_empty)
  have no: "\<not> selected (37 # runes ''go'' @ [37]) row_nul"
    by (simp add: selected_iff LIKE_def sqlite3_value_text_def sqlite3Utf8Read_def
        row_nul_def runes_def like_char_def sqlite3Tolower_def)
  have 1: "fst (SimpleMemorySearch ok_driver sample_verbs (server_of [row_nul])
          (request_of ''query'' ''go''))
     = NewToolResultText (runes ''No matching simple-memories found.'')"
    unfolding SimpleMemorySearch_returns[where req="request_of ''query'' ''go''",
        OF q ne sample_driver(2,3)] sample_server TrimSpace_samples
    by (simp add: no Search_result_def)
  have 2: "spec_matches (runes ''go'') row_nul"
    by (simp add: spec_matches_def spec_contains_def row_nul_def runes_def sublist_code)
  have 3: "selected ([37] @ (runes ''a'' @ [0] @ runes ''zz'') @ [37]) row_nul"
    by (simp add: selected_iff LIKE_def sqlite3_value_text_def sqlite3Utf8Read_def
        row_nul_def runes_def like_char_def sqlite3Tolower_def)
  have 4: "\<not> spec_matches (runes ''a'' @ [0] @ runes ''zz'') row_nul"
    by (simp add: spec_matches_def spec_contains_def row_nul_def runes_def sublist_code)
  from 1 2 3 4 show ?thesis by simp
qed

subsection \<open>Search and delete\<close>

text \<open>
  C2, as the code has it: when every record of the store has content that is not blank
  (as every record that Add creates has) and the statements run, there is a list of rows,
  the rows of the table that satisfy the WHERE clause, such that Search returns the lines
  of exactly these rows, Delete reports their number as its count, and Delete removes
  exactly these rows from the table: one predicate governs both.
\<close>

theorem C2_delete_removes_what_search_returns:
  assumes "\<forall>r\<in>set (tbl (db s)). TrimSpace (rcontent r) \<noteq> []"
    and "req ''query'' = Some (StringArg queryParam)"
    and "TrimSpace queryParam \<noteq> []"
    and "query_err drv = None" and "rows_err drv = None" and "exec_err drv = None"
  shows "\<exists>rows.
           fst (SimpleMemorySearch drv f s req) = Search_result f (map (surfaced drv) rows)
         \<and> fst (SimpleMemoryDelete drv f s req) = Delete_result f (int (length rows))
         \<and> set rows = {r \<in> set (tbl (db s)). selected ([37] @ TrimSpace queryParam @ [37]) r}
         \<and> tbl (db (snd (SimpleMemoryDelete drv f s req)))
             = filter (\<lambda>r. r \<notin> set rows) (tbl (db s))
         \<and> length (tbl (db (snd (SimpleMemoryDelete drv f s req)))) + length rows
             = length (tbl (db s))"
proof -
  let ?pat = "[37] @ TrimSpace queryParam @ [37]"
  let ?rows = "sort_key rid (filter (selected ?pat) (tbl (db s)))"
  have search: "fst (SimpleMemorySearch drv f s req) =
           Search_result f
             (map (surfaced drv) (filter (\<lambda>r. TrimSpace (rcontent r) \<noteq> []) ?rows))"
    using assms(2,3,4,5)
    by (simp add: SimpleMemorySearch_def RequireString_def Query_like_def scan_rows_acc
        Search_result_def Let_def)
  have delete: "fst (SimpleMemoryDelete drv f s req) =
           Delete_result f (int (length (filter (selected ?pat) (tbl (db s)))))"
    "tbl (db (snd (SimpleMemoryDelete drv f s req))) =
           filter (\<lambda>r. \<not> selected ?pat r) (tbl (db s))"
    using assms(2,3,6)
    by (simp_all add: SimpleMemoryDelete_def RequireString_def Exec_delete_def sent_def
        Delete_result_def Let_def)
  have 1: "fst (SimpleMemorySearch drv f s req) = Search_result f (map (surfaced drv) ?rows)"
    unfolding search filter_nonblank_id[OF assms(1)] by (rule refl)
  have len: "length ?rows = length (filter (selected ?pat) (tbl (db s)))" by simp
  have 2: "fst (SimpleMemoryDelete drv f s req) = Delete_result f (int (length ?rows))"
    unfolding delete(1) len by (rule refl)
  have 3: "set ?rows = {r \<in> set (tbl (db s)). selected ?pat r}" by auto
  have "filter (\<lambda>r. \<not> selected ?pat r) (tbl (db s)) = filter (\<lambda>r. r \<notin> set ?rows) (tbl (db s))"
    by (rule filter_cong) auto
  then have 4: "tbl (db (snd (SimpleMemoryDelete drv f s req)))
             = filter (\<lambda>r. r \<notin> set ?rows) (tbl (db s))"
    unfolding delete(2) .
  have "length (filter (\<lambda>r. \<not> selected ?pat r) (tbl (db s))) + length ?rows
        = length (tbl (db s))"
    unfolding len using sum_length_filter_compl[of "selected ?pat" "tbl (db s)"] by simp
  then have 5: "length (tbl (db (snd (SimpleMemoryDelete drv f s req)))) + length ?rows
             = length (tbl (db s))"
    unfolding delete(2) .
  from 1 2 3 4 5 show ?thesis by blast
qed

theorem C2_delete_removes_what_search_returns_witness:
  \<open>list_all (\<lambda>r. TrimSpace (rcontent r) \<noteq> []) (tbl (db (server_of [row_go, row_plain])))
   \<and> request_of ''query'' ''go'' ''query'' = Some (StringArg (runes ''go''))
   \<and> TrimSpace (runes ''go'') \<noteq> []
   \<and> query_err ok_driver = None \<and> rows_err ok_driver = None \<and> exec_err ok_driver = None
   \<and> (\<exists>rows.
         fst (SimpleMemorySearch ok_driver sample_verbs (server_of [row_go, row_plain])
               (request_of ''query'' ''go''))
           = Search_result sample_verbs (map (surfaced ok_driver) rows)
       \<and> fst (SimpleMemoryDelete ok_driver sample_verbs (server_of [row_go, row_plain])
               (request_of ''query'' ''go''))
           = Delete_result sample_verbs (int (length rows))
       \<and> set rows = {row_go}
       \<and> tbl (db (snd (SimpleMemoryDelete ok_driver sample_verbs (server_of [row_go, row_plain])
               (request_of ''query'' ''go''))))
           = [row_plain]
       \<and> length rows = 1)\<close>
proof -
  let ?s = "server_of [row_go, row_plain]"
  have h1: "\<forall>r\<in>set (tbl (db ?s)). TrimSpace (rcontent r) \<noteq> []"
    by (simp add: sample_server sample_rows_content)
  have h2: "request_of ''query'' ''go'' ''query'' = Some (StringArg (runes ''go''))"
    by (rule request_of_query)
  have h3: "TrimSpace (runes ''go'') \<noteq> []"
    unfolding TrimSpace_samples by (rule sample_queries_not_empty)
  have ne: "row_go \<noteq> row_plain"
  proof
    assume "row_go = row_plain"
    then have "rid row_go = rid row_plain" by simp
    then show False by (simp add: sample_rows_rid)
  qed
  have sel: "{r \<in> set (tbl (db ?s)). selected ([37] @ TrimSpace (runes ''go'') @ [37]) r}
             = {row_go}"
    unfolding TrimSpace_samples sample_server using sample_selected(1,2) by auto
  from C2_delete_removes_what_search_returns[where req="request_of ''query'' ''go''"
      and f=sample_verbs, OF h1 h2 h3 sample_driver(2,3,1)]
  obtain rows where r:
    "fst (SimpleMemorySearch ok_driver sample_verbs ?s (request_of ''query'' ''go''))
       = Search_result sample_verbs (map (surfaced ok_driver) rows)"
    "fst (SimpleMemoryDelete ok_driver sample_verbs ?s (request_of ''query'' ''go''))
       = Delete_result sample_verbs (int (length rows))"
    "set rows = {row_go}"
    "tbl (db (snd (SimpleMemoryDelete ok_driver sample_verbs ?s (request_of ''query'' ''go''))))
       = filter (\<lambda>r. r \<notin> set rows) (tbl (db ?s))"
    "length (tbl (db (snd (SimpleMemoryDelete ok_driver sample_verbs ?s
        (request_of ''query'' ''go''))))) + length rows = length (tbl (db ?s))"
    unfolding sel by blast
  from r(3,4) ne have t: "tbl (db (snd (SimpleMemoryDelete ok_driver sample_verbs ?s
      (request_of ''query'' ''go'')))) = [row_plain]"
    by (simp add: sample_server)
  with r(5) have l: "length rows = 1" by (simp add: sample_server)
  from r(1,2,3) t l have "\<exists>rows.
         fst (SimpleMemorySearch ok_driver sample_verbs ?s (request_of ''query'' ''go''))
           = Search_result sample_verbs (map (surfaced ok_driver) rows)
       \<and> fst (SimpleMemoryDelete ok_driver sample_verbs ?s (request_of ''query'' ''go''))
           = Delete_result sample_verbs (int (length rows))
       \<and> set rows = {row_go}
       \<and> tbl (db (snd (SimpleMemoryDelete ok_driver sample_verbs ?s
               (request_of ''query'' ''go'')))) = [row_plain]
       \<and> length rows = 1"
    by blast
  with h1 h2 h3 sample_driver show ?thesis by (simp add: list_all_iff)
qed

text \<open>
  C2 as it is written fails on a store that holds a row with blank content: the search for
  \<open>temp\<close> leaves the row out and returns nothing, the deletion removes it and counts it.
\<close>

theorem C2_counterexample:
  "fst (SimpleMemorySearch ok_driver sample_verbs (server_of [row_blank])
          (request_of ''query'' ''temp''))
     = NewToolResultText (runes ''No matching simple-memories found.'')
   \<and> fst (SimpleMemoryDelete ok_driver sample_verbs (server_of [row_blank])
          (request_of ''query'' ''temp''))
     = NewToolResultText (runes ''Deleted 1 simple-memories.'')"
proof -
  let ?s = "server_of [row_blank]"
  have q: "request_of ''query'' ''temp'' ''query'' = Some (StringArg (runes ''temp''))"
    by (rule request_of_query)
  have ne: "TrimSpace (runes ''temp'') \<noteq> []"
    unfolding TrimSpace_samples by (rule sample_queries_not_empty)
  have search: "fst (SimpleMemorySearch ok_driver sample_verbs ?s (request_of ''query'' ''temp''))
     = NewToolResultText (runes ''No matching simple-memories found.'')"
    unfolding SimpleMemorySearch_returns[where req="request_of ''query'' ''temp''",
        OF q ne sample_driver(2,3)] sample_server TrimSpace_samples
    by (simp add: sample_selected[simplified] sample_rows_content Search_result_def)
  have "fst (SimpleMemoryDelete ok_driver sample_verbs ?s (request_of ''query'' ''temp''))
     = NewToolResultText (runes ''Deleted '' @ verb_d sample_verbs 1 @ runes '' simple-memories.'')"
    unfolding SimpleMemoryDelete_returns(1)[where req="request_of ''query'' ''temp''",
        OF q ne sample_driver(1)] sample_server TrimSpace_samples
    by (simp add: sample_selected[simplified] Delete_result_def)
  then have "fst (SimpleMemoryDelete ok_driver sample_verbs ?s (request_of ''query'' ''temp''))
     = NewToolResultText (runes ''Deleted 1 simple-memories.'')"
    unfolding sample_count by (simp add: runes_def)
  with search show ?thesis by simp
qed

subsection \<open>Rejected input\<close>

text \<open>
  C3: when the \<open>memory\<close> argument is empty or only white space, Add returns the error
  \<open>memory cannot be empty\<close> and the server, with its database, its log and the statements
  the database has received, is exactly as before: no row is stored.
\<close>

theorem C3_add_blank_content_rejected:
  assumes "req ''memory'' = Some (StringArg memory)"
    and "TrimSpace memory = []"
  shows "SimpleMemoryAdd drv f s req = (NewToolResultError (runes ''memory cannot be empty''), s)"
  using assms by (simp add: SimpleMemoryAdd_def RequireString_string Let_def)

theorem C3_add_blank_content_rejected_witness:
  "request_of ''memory'' ''   '' ''memory'' = Some (StringArg (runes ''   ''))
   \<and> TrimSpace (runes ''   '') = []
   \<and> SimpleMemoryAdd ok_driver sample_verbs (server_of [row_go]) (request_of ''memory'' ''   '')
       = (NewToolResultError (runes ''memory cannot be empty''), server_of [row_go])"
proof -
  have h1: "request_of ''memory'' ''   '' ''memory'' = Some (StringArg (runes ''   ''))"
    by (simp add: request_of_def)
  have h2: "TrimSpace (runes ''   '') = []"
    by (simp add: runes_def TrimSpace_def IsSpace_def)
  from C3_add_blank_content_rejected[where req="request_of ''memory'' ''   ''", OF h1 h2] h1 h2
  show ?thesis by simp
qed

text \<open>
  C4: when the \<open>query\<close> argument is empty or only white space, Search and Delete both
  return the error \<open>query cannot be empty\<close>, whatever the driver would have reported, and
  the server is exactly as before: the database has received no statement and holds the
  same rows.
\<close>

theorem C4_blank_query_rejected:
  assumes "req ''query'' = Some (StringArg queryParam)"
    and "TrimSpace queryParam = []"
  shows "SimpleMemorySearch drv f s req = (NewToolResultError (runes ''query cannot be empty''), s)
       \<and> SimpleMemoryDelete drv f s req = (NewToolResultError (runes ''query cannot be empty''), s)"
  using assms
  by (simp add: SimpleMemorySearch_def SimpleMemoryDelete_def RequireString_string Let_def)

theorem C4_blank_query_rejected_witness:
  "request_of ''query'' '' '' ''query'' = Some (StringArg (runes '' ''))
   \<and> TrimSpace (runes '' '') = []
   \<and> SimpleMemorySearch ok_driver sample_verbs (server_of [row_go]) (request_of ''query'' '' '')
       = (NewToolResultError (runes ''query cannot be empty''), server_of [row_go])
   \<and> SimpleMemoryDelete ok_driver sample_verbs (server_of [row_go]) (request_of ''query'' '' '')
       = (NewToolResultError (runes ''query cannot be empty''), server_of [row_go])"
proof -
  have h1: "request_of ''query'' '' '' ''query'' = Some (StringArg (runes '' ''))"
    by (rule request_of_query)
  have h2: "TrimSpace (runes '' '') = []"
    by (simp add: runes_def TrimSpace_def IsSpace_def)
  from C4_blank_query_rejected[where req="request_of ''query'' '' ''", OF h1 h2] h1 h2
  show ?thesis by simp
qed

subsection \<open>Order of the results\<close>

text \<open>
  C5: whatever the order of the rows in the table, whose ids are distinct because \<open>id\<close>
  is the primary key, when the query runs the text that List returns is made of the rows
  with content, each once, in strictly ascending order of their ids, and the text that
  Search returns is made of the selected rows with content, in strictly ascending order
  of their ids.
\<close>

theorem C5_ascending_id_order:
  assumes "distinct (map rid (tbl (db s)))"
    and "query_err drv = None" and "rows_err drv = None"
    and "req' ''query'' = Some (StringArg queryParam)"
    and "TrimSpace queryParam \<noteq> []"
  shows "(\<exists>rows.
            fst (SimpleMemoryList drv f s req) = List_result f (map (surfaced drv) rows)
          \<and> sorted_wrt (<) (map ID (map (surfaced drv) rows))
          \<and> set rows = {r \<in> set (tbl (db s)). TrimSpace (rcontent r) \<noteq> []})
       \<and> (\<exists>rows.
            fst (SimpleMemorySearch drv f s req') = Search_result f (map (surfaced drv) rows)
          \<and> sorted_wrt (<) (map ID (map (surfaced drv) rows))
          \<and> set rows = {r \<in> set (tbl (db s)).
                           selected ([37] @ TrimSpace queryParam @ [37]) r
                           \<and> TrimSpace (rcontent r) \<noteq> []})"
proof
  let ?keep = "\<lambda>r. TrimSpace (rcontent r) \<noteq> []"
  have ids: "map ID (map (surfaced drv) rows) = map rid rows" for rows
    by (simp add: surfaced_def comp_def)
  let ?rows = "filter ?keep (sort_key rid (tbl (db s)))"
  have "sorted_wrt (<) (map rid (filter ?keep (sort_key rid (filter (\<lambda>r. True) (tbl (db s))))))"
    using assms(1) by (rule strictly_ascending_sorted_rows)
  then have "sorted_wrt (<) (map ID (map (surfaced drv) ?rows))" unfolding ids by simp
  moreover have "set ?rows = {r \<in> set (tbl (db s)). ?keep r}" by auto
  moreover have "fst (SimpleMemoryList drv f s req) = List_result f (map (surfaced drv) ?rows)"
    using assms(2,3)
    by (simp add: SimpleMemoryList_def Query_all_def scan_rows_acc List_result_def Let_def)
  ultimately show "\<exists>rows.
            fst (SimpleMemoryList drv f s req) = List_result f (map (surfaced drv) rows)
          \<and> sorted_wrt (<) (map ID (map (surfaced drv) rows))
          \<and> set rows = {r \<in> set (tbl (db s)). TrimSpace (rcontent r) \<noteq> []}"
    by blast
next
  let ?keep = "\<lambda>r. TrimSpace (rcontent r) \<noteq> []"
  let ?pat = "[37] @ TrimSpace queryParam @ [37]"
  have ids: "map ID (map (surfaced drv) rows) = map rid rows" for rows
    by (simp add: surfaced_def comp_def)
  let ?rows = "filter ?keep (sort_key rid (filter (selected ?pat) (tbl (db s))))"
  have "sorted_wrt (<) (map rid ?rows)"
    using assms(1) by (rule strictly_ascending_sorted_rows)
  then have "sorted_wrt (<) (map ID (map (surfaced drv) ?rows))" unfolding ids .
  moreover have "set ?rows = {r \<in> set (tbl (db s)). selected ?pat r \<and> ?keep r}" by auto
  moreover have "fst (SimpleMemorySearch drv f s req') = Search_result f (map (surfaced drv) ?rows)"
    using assms(2,3,4,5)
    by (simp add: SimpleMemorySearch_def RequireString_def Query_like_def scan_rows_acc
        Search_result_def Let_def)
  ultimately show "\<exists>rows.
            fst (SimpleMemorySearch drv f s req') = Search_result f (map (surfaced drv) rows)
          \<and> sorted_wrt (<) (map ID (map (surfaced drv) rows))
          \<and> set rows = {r \<in> set (tbl (db s)).
                           selected ([37] @ TrimSpace queryParam @ [37]) r
                           \<and> TrimSpace (rcontent r) \<noteq> []}"
    by blast
qed

theorem C5_ascending_id_order_witness:
  \<open>distinct (map rid (tbl (db (server_of [row_plain, row_blank, row_go]))))
   \<and> query_err ok_driver = None \<and> rows_err ok_driver = None
   \<and> request_of ''query'' ''keep'' ''query'' = Some (StringArg (runes ''keep''))
   \<and> TrimSpace (runes ''keep'') \<noteq> []
   \<and> fst (SimpleMemoryList ok_driver sample_verbs (server_of [row_plain, row_blank, row_go])
            no_arguments)
      = NewToolResultText
          (runes ''{"id":1,"title":"Go","tags":"","status":"","content":"unrelated","created_at":"2025-01-01T00:00:00Z"}''
           @ [10] @
           runes ''{"id":3,"title":"","tags":"","status":"","content":"keep C","created_at":"2025-01-03T00:00:00Z"}'')
   \<and> (\<exists>rows.
         fst (SimpleMemoryList ok_driver sample_verbs (server_of [row_plain, row_blank, row_go])
               no_arguments)
           = List_result sample_verbs (map (surfaced ok_driver) rows)
       \<and> sorted_wrt (<) (map ID (map (surfaced ok_driver) rows))
       \<and> set rows = {row_go, row_plain})
   \<and> (\<exists>rows.
         fst (SimpleMemorySearch ok_driver sample_verbs (server_of [row_plain, row_blank, row_go])
               (request_of ''query'' ''keep''))
           = Search_result sample_verbs (map (surfaced ok_driver) rows)
       \<and> sorted_wrt (<) (map ID (map (surfaced ok_driver) rows))
       \<and> set rows = {row_plain})\<close>
proof -
  let ?s = "server_of [row_plain, row_blank, row_go]"
  have h1: "distinct (map rid (tbl (db ?s)))"
    by (simp add: sample_server sample_rows_rid)
  have h4: "request_of ''query'' ''keep'' ''query'' = Some (StringArg (runes ''keep''))"
    by (rule request_of_query)
  have h5: "TrimSpace (runes ''keep'') \<noteq> []"
    unfolding TrimSpace_samples by (rule sample_queries_not_empty)
  have l: "{r \<in> set (tbl (db ?s)). TrimSpace (rcontent r) \<noteq> []} = {row_go, row_plain}"
    unfolding sample_server using sample_rows_content by auto
  have nk: "\<not> selected ([37] @ runes ''keep'' @ [37]) row_go"
    by (simp add: selected_iff LIKE_def sqlite3_value_text_def sqlite3Utf8Read_def
        row_go_def runes_def like_char_def sqlite3Tolower_def)
  have k: "{r \<in> set (tbl (db ?s)). selected ([37] @ TrimSpace (runes ''keep'') @ [37]) r
             \<and> TrimSpace (rcontent r) \<noteq> []} = {row_plain}"
    unfolding sample_server TrimSpace_samples
    using sample_rows_content sample_selected(4) nk by auto
  have out: "fst (SimpleMemoryList ok_driver sample_verbs ?s no_arguments)
      = NewToolResultText
          (Sprintf_mem sample_verbs (surfaced ok_driver row_go) @ [10] @
           Sprintf_mem sample_verbs (surfaced ok_driver row_plain))"
    unfolding SimpleMemoryList_returns[OF sample_driver(2,3)] sample_server sample_sort3
    by (simp add: sample_rows_content List_result_def)
  from C5_ascending_id_order[where req'="request_of ''query'' ''keep''" and req=no_arguments
      and f=sample_verbs, OF h1 sample_driver(2,3) h4 h5]
  have "(\<exists>rows.
         fst (SimpleMemoryList ok_driver sample_verbs ?s no_arguments)
           = List_result sample_verbs (map (surfaced ok_driver) rows)
       \<and> sorted_wrt (<) (map ID (map (surfaced ok_driver) rows))
       \<and> set rows = {row_go, row_plain})
   \<and> (\<exists>rows.
         fst (SimpleMemorySearch ok_driver sample_verbs ?s (request_of ''query'' ''keep''))
           = Search_result sample_verbs (map (surfaced ok_driver) rows)
       \<and> sorted_wrt (<) (map ID (map (surfaced ok_driver) rows))
       \<and> set rows = {row_plain})"
    unfolding l k .
  with h1 h4 h5 sample_driver(2,3) out show ?thesis unfolding sample_lines by simp
qed

subsection \<open>Deleting nothing\<close>

text \<open>
  C6, as the code has it: when the trimmed query is not empty, contains none of \<open>%\<close>,
  \<open>_\<close> and U+0000 and occurs in no field of any record, the case of ASCII letters
  ignored and the texts as SQLite reads them, and the statement runs, Delete returns the
  text \<open>No simple-memories deleted (no match).\<close>, which is not an error, and the table
  holds the same rows as before.
\<close>

theorem C6_delete_without_match:
  assumes "req ''query'' = Some (StringArg queryParam)"
    and "TrimSpace queryParam \<noteq> []"
    and "\<forall>c\<in>set (TrimSpace queryParam). c \<noteq> 0 \<and> c \<noteq> 37 \<and> c \<noteq> 95"
    and "exec_err drv = None"
    and "\<forall>r\<in>set (tbl (db s)). \<not> matches_nocase (TrimSpace queryParam) r"
  shows "fst (SimpleMemoryDelete drv f s req) =
           NewToolResultText (runes ''No simple-memories deleted (no match).'')
       \<and> tbl (db (snd (SimpleMemoryDelete drv f s req))) = tbl (db s)"
proof -
  let ?pat = "[37] @ TrimSpace queryParam @ [37]"
  from assms(5) have no: "\<forall>r\<in>set (tbl (db s)). \<not> selected ?pat r"
    unfolding selected_matches_nocase[OF assms(3)] .
  then have none: "filter (selected ?pat) (tbl (db s)) = []"
    by (simp only: filter_empty_conv)
  from no have all: "filter (\<lambda>r. \<not> selected ?pat r) (tbl (db s)) = tbl (db s)"
    by (simp only: filter_id_conv)
  have "fst (SimpleMemoryDelete drv f s req) =
           Delete_result f (int (length (filter (selected ?pat) (tbl (db s)))))"
    and "tbl (db (snd (SimpleMemoryDelete drv f s req))) =
           filter (\<lambda>r. \<not> selected ?pat r) (tbl (db s))"
    using assms(1,2,4)
    by (simp_all add: SimpleMemoryDelete_def RequireString_def Exec_delete_def sent_def
        Delete_result_def Let_def)
  then show ?thesis unfolding none all by (simp add: Delete_result_def)
qed

theorem C6_delete_without_match_witness:
  "request_of ''query'' ''xyz'' ''query'' = Some (StringArg (runes ''xyz''))
   \<and> TrimSpace (runes ''xyz'') \<noteq> []
   \<and> 0 \<notin> set (TrimSpace (runes ''xyz'')) \<and> 37 \<notin> set (TrimSpace (runes ''xyz''))
   \<and> 95 \<notin> set (TrimSpace (runes ''xyz''))
   \<and> exec_err ok_driver = None
   \<and> list_all (\<lambda>r. \<not> matches_nocase (TrimSpace (runes ''xyz'')) r)
         (tbl (db (server_of [row_go, row_plain])))
   \<and> fst (SimpleMemoryDelete ok_driver sample_verbs (server_of [row_go, row_plain])
            (request_of ''query'' ''xyz''))
       = NewToolResultText (runes ''No simple-memories deleted (no match).'')
   \<and> tbl (db (snd (SimpleMemoryDelete ok_driver sample_verbs (server_of [row_go, row_plain])
            (request_of ''query'' ''xyz'')))) = [row_go, row_plain]"
proof -
  let ?s = "server_of [row_go, row_plain]"
  have h1: "request_of ''query'' ''xyz'' ''query'' = Some (StringArg (runes ''xyz''))"
    by (rule request_of_query)
  have h2: "TrimSpace (runes ''xyz'') \<noteq> []"
    unfolding TrimSpace_samples by (rule sample_queries_not_empty)
  have h3: "\<forall>c\<in>set (TrimSpace (runes ''xyz'')). c \<noteq> 0 \<and> c \<noteq> 37 \<and> c \<noteq> 95"
    unfolding TrimSpace_samples by (simp add: runes_def)
  have h3': "0 \<notin> set (TrimSpace (runes ''xyz'')) \<and> 37 \<notin> set (TrimSpace (runes ''xyz''))
             \<and> 95 \<notin> set (TrimSpace (runes ''xyz''))"
    unfolding TrimSpace_samples by (simp add: runes_def)
  have m: "\<not> matches_nocase (TrimSpace (runes ''xyz'')) row_go"
          "\<not> matches_nocase (TrimSpace (runes ''xyz'')) row_plain"
    using sample_selected(5,6) h3
    by (simp_all only: TrimSpace_samples selected_matches_nocase simp_thms)
  then have h5: "\<forall>r\<in>set (tbl (db ?s)). \<not> matches_nocase (TrimSpace (runes ''xyz'')) r"
    by (simp add: sample_server)
  from C6_delete_without_match[where req="request_of ''query'' ''xyz''" and f=sample_verbs,
      OF h1 h2 h3 sample_driver(1) h5] h1 h2 h3' sample_driver(1) h5
  show ?thesis by (simp add: list_all_iff sample_server)
qed

text \<open>
  C6 as it is written fails: the query \<open>go\<close> is no part of any field of the only record
  of the store, whose title is \<open>Go\<close>, and Delete removes the record and reports one
  deletion.
\<close>

theorem C6_counterexample:
  "list_all (\<lambda>r. \<not> spec_matches (runes ''go'') r) (tbl (db (server_of [row_go])))
   \<and> fst (SimpleMemoryDelete ok_driver sample_verbs (server_of [row_go])
            (request_of ''query'' ''go''))
       = NewToolResultText (runes ''Deleted 1 simple-memories.'')
   \<and> tbl (db (snd (SimpleMemoryDelete ok_driver sample_verbs (server_of [row_go])
            (request_of ''query'' ''go'')))) = []"
proof -
  let ?s = "server_of [row_go]"
  have q: "request_of ''query'' ''go'' ''query'' = Some (StringArg (runes ''go''))"
    by (rule request_of_query)
  have ne: "TrimSpace (runes ''go'') \<noteq> []"
    unfolding TrimSpace_samples by (rule sample_queries_not_empty)
  have "fst (SimpleMemoryDelete ok_driver sample_verbs ?s (request_of ''query'' ''go''))
     = NewToolResultText (runes ''Deleted '' @ verb_d sample_verbs 1 @ runes '' simple-memories.'')"
    unfolding SimpleMemoryDelete_returns(1)[where req="request_of ''query'' ''go''",
        OF q ne sample_driver(1)] sample_server TrimSpace_samples
    by (simp add: sample_selected[simplified] Delete_result_def)
  then have 1: "fst (SimpleMemoryDelete ok_driver sample_verbs ?s (request_of ''query'' ''go''))
     = NewToolResultText (runes ''Deleted 1 simple-memories.'')"
    unfolding sample_count by (simp add: runes_def)
  have 2: "tbl (db (snd (SimpleMemoryDelete ok_driver sample_verbs ?s
      (request_of ''query'' ''go'')))) = []"
    unfolding SimpleMemoryDelete_returns(2)[where req="request_of ''query'' ''go''",
        OF q ne sample_driver(1)] sample_server TrimSpace_samples
    by (simp add: sample_selected[simplified])
  have 3: "\<not> spec_matches (runes ''go'') row_go"
    by (simp add: spec_matches_def spec_contains_def row_go_def runes_def sublist_code)
  from 1 2 3 show ?thesis by (simp add: sample_server)
qed

subsection \<open>Absent fields\<close>

text \<open>
  C7: when the query runs, the text that List returns, whatever its request, is the
  lines, joined by line feeds, that \<open>Sprintf\<close> makes of the rows with content in id
  order, each row formatted with its title, tags and status as strings, the empty string
  standing for NULL; the text that Search returns is made in the same way of the selected
  rows.
\<close>

theorem C7_absent_fields_surface_empty:
  assumes "query_err drv = None" and "rows_err drv = None"
    and "req' ''query'' = Some (StringArg queryParam)" and "TrimSpace queryParam \<noteq> []"
  shows "fst (SimpleMemoryList drv f s req) =
           List_result f
             (map (\<lambda>r. \<lparr>ID = rid r, Title = (case rtitle r of None \<Rightarrow> [] | Some title \<Rightarrow> title),
                         Tags = (case rtags r of None \<Rightarrow> [] | Some tags \<Rightarrow> tags),
                         Status = (case rstatus r of None \<Rightarrow> [] | Some status \<Rightarrow> status),
                         Content = rcontent r,
                         CreatedAt = datetime_text drv (rcreated_at r)\<rparr>)
                (filter (\<lambda>r. TrimSpace (rcontent r) \<noteq> []) (sort_key rid (tbl (db s)))))
       \<and> fst (SimpleMemorySearch drv f s req') =
           Search_result f
             (map (\<lambda>r. \<lparr>ID = rid r, Title = (case rtitle r of None \<Rightarrow> [] | Some title \<Rightarrow> title),
                         Tags = (case rtags r of None \<Rightarrow> [] | Some tags \<Rightarrow> tags),
                         Status = (case rstatus r of None \<Rightarrow> [] | Some status \<Rightarrow> status),
                         Content = rcontent r,
                         CreatedAt = datetime_text drv (rcreated_at r)\<rparr>)
                (filter (\<lambda>r. TrimSpace (rcontent r) \<noteq> [])
                   (sort_key rid
                      (filter (selected ([37] @ TrimSpace queryParam @ [37])) (tbl (db s))))))"
proof -
  have s: "surfaced drv = (\<lambda>r. \<lparr>ID = rid r, Title = (case rtitle r of None \<Rightarrow> [] | Some title \<Rightarrow> title),
                         Tags = (case rtags r of None \<Rightarrow> [] | Some tags \<Rightarrow> tags),
                         Status = (case rstatus r of None \<Rightarrow> [] | Some status \<Rightarrow> status),
                         Content = rcontent r,
                         CreatedAt = datetime_text drv (rcreated_at r)\<rparr>)"
    by (rule ext) (simp add: surfaced_def or_empty_def)
  have "fst (SimpleMemoryList drv f s req) =
           List_result f
             (map (surfaced drv)
                (filter (\<lambda>r. TrimSpace (rcontent r) \<noteq> []) (sort_key rid (tbl (db s)))))"
    using assms(1,2)
    by (simp add: SimpleMemoryList_def Query_all_def scan_rows_acc List_result_def Let_def)
  moreover have "fst (SimpleMemorySearch drv f s req') =
           Search_result f
             (map (surfaced drv)
                (filter (\<lambda>r. TrimSpace (rcontent r) \<noteq> [])
                   (sort_key rid
                      (filter (selected ([37] @ TrimSpace queryParam @ [37])) (tbl (db s))))))"
    using assms
    by (simp add: SimpleMemorySearch_def RequireString_def Query_like_def scan_rows_acc
        Search_result_def Let_def)
  ultimately show ?thesis unfolding s by simp
qed

theorem C7_absent_fields_surface_empty_witness:
  \<open>query_err ok_driver = None \<and> rows_err ok_driver = None
   \<and> request_of ''query'' ''keep'' ''query'' = Some (StringArg (runes ''keep''))
   \<and> TrimSpace (runes ''keep'') \<noteq> []
   \<and> rtitle row_plain = None \<and> rtags row_plain = None \<and> rstatus row_plain = None
   \<and> fst (SimpleMemoryList ok_driver sample_verbs (server_of [row_plain]) no_arguments)
      = NewToolResultText (runes
          ''{"id":3,"title":"","tags":"","status":"","content":"keep C","created_at":"2025-01-03T00:00:00Z"}'')
   \<and> fst (SimpleMemorySearch ok_driver sample_verbs (server_of [row_plain])
            (request_of ''query'' ''keep''))
      = NewToolResultText (runes
          ''{"id":3,"title":"","tags":"","status":"","content":"keep C","created_at":"2025-01-03T00:00:00Z"}'')\<close>
proof -
  let ?s = "server_of [row_plain]"
  have h3: "request_of ''query'' ''keep'' ''query'' = Some (StringArg (runes ''keep''))"
    by (rule request_of_query)
  have h4: "TrimSpace (runes ''keep'') \<noteq> []"
    unfolding TrimSpace_samples by (rule sample_queries_not_empty)
  have n: "rtitle row_plain = None \<and> rtags row_plain = None \<and> rstatus row_plain = None"
    by (simp add: row_plain_def)
  have p: "\<lparr>ID = rid row_plain,
            Title = (case rtitle row_plain of None \<Rightarrow> [] | Some title \<Rightarrow> title),
            Tags = (case rtags row_plain of None \<Rightarrow> [] | Some tags \<Rightarrow> tags),
            Status = (case rstatus row_plain of None \<Rightarrow> [] | Some status \<Rightarrow> status),
            Content = rcontent row_plain,
            CreatedAt = datetime_text ok_driver (rcreated_at row_plain)\<rparr>
           = surfaced ok_driver row_plain"
    by (simp add: surfaced_def or_empty_def)
  from C7_absent_fields_surface_empty[where req'="request_of ''query'' ''keep''"
      and req=no_arguments and f=sample_verbs and s="?s", OF sample_driver(2,3) h3 h4]
  have "fst (SimpleMemoryList ok_driver sample_verbs ?s no_arguments)
          = NewToolResultText (Sprintf_mem sample_verbs (surfaced ok_driver row_plain))"
    and "fst (SimpleMemorySearch ok_driver sample_verbs ?s (request_of ''query'' ''keep''))
          = NewToolResultText (Sprintf_mem sample_verbs (surfaced ok_driver row_plain))"
    unfolding sample_server TrimSpace_samples
    by (simp_all add: sample_rows_content sample_selected[simplified] p List_result_def
        Search_result_def)
  with sample_driver(2,3) h3 h4 n show ?thesis unfolding sample_lines by simp
qed

subsection \<open>Blank content\<close>

text \<open>
  C8: every record that List or Search returns has content that is not blank, and both
  return what they would return if the rows with blank content were not in the table.
\<close>

theorem C8_blank_content_excluded:
  "(\<forall>m\<in>set (List_records drv d). TrimSpace (Content m) \<noteq> [])
   \<and> (\<forall>m\<in>set (Search_records drv d q). TrimSpace (Content m) \<noteq> [])
   \<and> List_records drv d =
       List_records drv (d\<lparr>tbl := filter (\<lambda>r. TrimSpace (rcontent r) \<noteq> []) (tbl d)\<rparr>)
   \<and> Search_records drv d q =
       Search_records drv (d\<lparr>tbl := filter (\<lambda>r. TrimSpace (rcontent r) \<noteq> []) (tbl d)\<rparr>) q"
proof -
  let ?keep = "\<lambda>r. TrimSpace (rcontent r) \<noteq> []"
  have l: "List_records drv d' =
             (if query_err drv = None
              then map (surfaced drv) (filter ?keep (sort_key rid (tbl d'))) else [])" for d'
    by (auto simp: List_records_def Query_all_def scan_rows_acc Let_def)
  have s: "Search_records drv d' q =
             (if query_err drv = None
              then map (surfaced drv)
                     (filter ?keep (sort_key rid (filter (selected ([37] @ q @ [37])) (tbl d'))))
              else [])" for d'
    by (auto simp: Search_records_def Query_like_def scan_rows_acc Let_def)
  have 1: "\<forall>m\<in>set (List_records drv d). TrimSpace (Content m) \<noteq> []"
    by (auto simp: l surfaced_def)
  have 2: "\<forall>m\<in>set (Search_records drv d q). TrimSpace (Content m) \<noteq> []"
    by (auto simp: s surfaced_def)
  have 3: "List_records drv d = List_records drv (d\<lparr>tbl := filter ?keep (tbl d)\<rparr>)"
    by (simp add: l filter_sort)
  have "filter ?keep (sort_key rid (filter (selected ([37] @ q @ [37])) (tbl d)))
        = filter ?keep (sort_key rid (filter (selected ([37] @ q @ [37])) (filter ?keep (tbl d))))"
    by (simp add: filter_sort conj_commute)
  then have 4: "Search_records drv d q = Search_records drv (d\<lparr>tbl := filter ?keep (tbl d)\<rparr>) q"
    by (simp add: s)
  from 1 2 3 4 show ?thesis by blast
qed

theorem C8_blank_content_excluded_witness:
  "surfaced ok_driver row_plain \<in> set (List_records ok_driver (db_of [row_blank, row_plain]))
   \<and> TrimSpace (Content (surfaced ok_driver row_plain)) \<noteq> []
   \<and> TrimSpace (rcontent row_blank) = []
   \<and> List_records ok_driver (db_of [row_blank, row_plain]) = [surfaced ok_driver row_plain]
   \<and> Search_records ok_driver (db_of [row_blank, row_plain]) (runes ''keep'')
       = [surfaced ok_driver row_plain]"
proof -
  let ?d = "db_of [row_blank, row_plain]"
  have f: "filter (\<lambda>r. TrimSpace (rcontent r) \<noteq> []) (tbl ?d) = [row_plain]"
    by (simp add: db_of_def sample_rows_content)
  have l: "List_records ok_driver (?d\<lparr>tbl := [row_plain]\<rparr>) = [surfaced ok_driver row_plain]"
    by (simp add: List_records_eq sample_driver sample_rows_content)
  have s: "Search_records ok_driver (?d\<lparr>tbl := [row_plain]\<rparr>) (runes ''keep'')
           = [surfaced ok_driver row_plain]"
    by (simp add: Search_records_eq sample_driver sample_rows_content sample_selected[simplified])
  from C8_blank_content_excluded[of ok_driver ?d "runes ''keep''"]
  have "(\<forall>m\<in>set (List_records ok_driver ?d). TrimSpace (Content m) \<noteq> [])"
    and "List_records ok_driver ?d = [surfaced ok_driver row_plain]"
    and "Search_records ok_driver ?d (runes ''keep'') = [surfaced ok_driver row_plain]"
    unfolding f l s by blast+
  with sample_rows_content(2) show ?thesis by simp
qed

subsection \<open>Logging\<close>

text \<open>
  C9: for every input and every state, Add returns the same result and leaves the same
  database with logging disabled as with logging enabled, and so does Delete.
\<close>

theorem C9_logging_does_not_change_outcome:
  "fst (SimpleMemoryAdd drv f (s\<lparr>disableLogging := True\<rparr>) req)
     = fst (SimpleMemoryAdd drv f (s\<lparr>disableLogging := False\<rparr>) req)
   \<and> db (snd (SimpleMemoryAdd drv f (s\<lparr>disableLogging := True\<rparr>) req))
     = db (snd (SimpleMemoryAdd drv f (s\<lparr>disableLogging := False\<rparr>) req))
   \<and> fst (SimpleMemoryDelete drv f (s\<lparr>disableLogging := True\<rparr>) req)
     = fst (SimpleMemoryDelete drv f (s\<lparr>disableLogging := False\<rparr>) req)
   \<and> db (snd (SimpleMemoryDelete drv f (s\<lparr>disableLogging := True\<rparr>) req))
     = db (snd (SimpleMemoryDelete drv f (s\<lparr>disableLogging := False\<rparr>) req))"
proof -
  have a: "fst (SimpleMemoryAdd drv f (s\<lparr>disableLogging := b\<rparr>) req) = fst (SimpleMemoryAdd drv f s req)
        \<and> db (snd (SimpleMemoryAdd drv f (s\<lparr>disableLogging := b\<rparr>) req)) = db (snd (SimpleMemoryAdd drv f s req))"
    for b
    by (simp add: SimpleMemoryAdd_def Let_def split: sum.splits prod.splits)
  have d: "fst (SimpleMemoryDelete drv f (s\<lparr>disableLogging := b\<rparr>) req) = fst (SimpleMemoryDelete drv f s req)
        \<and> db (snd (SimpleMemoryDelete drv f (s\<lparr>disableLogging := b\<rparr>) req)) = db (snd (SimpleMemoryDelete drv f s req))"
    for b
    by (simp add: SimpleMemoryDelete_def Let_def split: sum.splits prod.splits)
  from a[of True] a[of False] d[of True] d[of False] show ?thesis by simp
qed

subsection \<open>What Add stores\<close>

text \<open>
  C10: when Add succeeds it appends one row to the table; the row holds the title, the tags,
  the status and the content of the request, each with its leading and trailing white
  space removed, so none of the four starts or ends with white space.
\<close>

theorem C10_add_stores_trimmed_fields:
  assumes "fst (SimpleMemoryAdd drv f s req) = NewToolResultText msg"
  shows "\<exists>r memory.
           tbl (db (snd (SimpleMemoryAdd drv f s req))) = tbl (db s) @ [r]
         \<and> req ''memory'' = Some (StringArg memory)
         \<and> rtitle r = Some (TrimSpace (GetString req ''title'' []))
         \<and> rtags r = Some (TrimSpace (GetString req ''tags'' []))
         \<and> rstatus r = Some (TrimSpace (GetString req ''status'' []))
         \<and> rcontent r = TrimSpace memory
         \<and> no_outer_space (or_empty (rtitle r))
         \<and> no_outer_space (or_empty (rtags r))
         \<and> no_outer_space (or_empty (rstatus r))
         \<and> no_outer_space (rcontent r)"
proof (cases "req ''memory''")
  case None
  with assms show ?thesis by (simp add: SimpleMemoryAdd_def RequireString_def Let_def)
next
  case (Some a)
  show ?thesis
  proof (cases a)
    case OtherArg
    with Some assms show ?thesis by (simp add: SimpleMemoryAdd_def RequireString_def Let_def)
  next
    case (StringArg memory)
    with Some have m: "req ''memory'' = Some (StringArg memory)" by simp
    let ?r = "\<lparr>rid = largest_rowid (db s) + 1,
               rtitle = Some (TrimSpace (GetString req ''title'' [])),
               rtags = Some (TrimSpace (GetString req ''tags'' [])),
               rstatus = Some (TrimSpace (GetString req ''status'' [])),
               rcontent = TrimSpace memory, rcreated_at = now drv\<rparr>"
    from assms m have "tbl (db (snd (SimpleMemoryAdd drv f s req))) = tbl (db s) @ [?r]"
      by (simp add: SimpleMemoryAdd_def RequireString_string Let_def Exec_insert_def sent_def
          split: if_splits option.splits)
    with m show ?thesis
      by (intro exI[of _ ?r] exI[of _ memory]) (simp add: or_empty_def TrimSpace_no_outer_space)
  qed
qed

theorem C10_add_stores_trimmed_fields_witness:
  "fst (SimpleMemoryAdd ok_driver sample_verbs (server_of [row_go]) add_request)
     = NewToolResultText (runes ''Simple-memory added.'')
   \<and> (\<exists>r. tbl (db (snd (SimpleMemoryAdd ok_driver sample_verbs (server_of [row_go]) add_request)))
             = [row_go] @ [r]
          \<and> rtitle r = Some (runes ''X'') \<and> rtags r = Some (runes ''go,db'')
          \<and> rstatus r = Some [] \<and> rcontent r = runes ''note''
          \<and> no_outer_space (or_empty (rtitle r)) \<and> no_outer_space (or_empty (rtags r))
          \<and> no_outer_space (or_empty (rstatus r)) \<and> no_outer_space (rcontent r))"
proof -
  let ?s = "server_of [row_go]"
  have g: "GetString add_request ''title'' [] = runes '' X ''"
    "GetString add_request ''tags'' [] = runes ''go,db ''"
    "GetString add_request ''status'' [] = []"
    "add_request ''memory'' = Some (StringArg (runes '' note ''))"
    by (simp_all add: GetString_def add_request_def)
  have ne: "runes ''note'' \<noteq> []" by (simp add: runes_def)
  have big: "largest_rowid (db ?s) = 3"
    by (simp add: largest_rowid_def server_of_def db_of_def row_go_def)
  have h: "fst (SimpleMemoryAdd ok_driver sample_verbs ?s add_request)
           = NewToolResultText (runes ''Simple-memory added.'')"
    by (simp add: SimpleMemoryAdd_def RequireString_string g TrimSpace_samples ne Let_def
        Exec_insert_def big ok_driver_def split: prod.splits)
  have tb: "tbl (db ?s) = [row_go]" by (simp add: server_of_def db_of_def)
  from C10_add_stores_trimmed_fields[OF h]
  have "\<exists>r. tbl (db (snd (SimpleMemoryAdd ok_driver sample_verbs ?s add_request))) = [row_go] @ [r]
          \<and> rtitle r = Some (runes ''X'') \<and> rtags r = Some (runes ''go,db'')
          \<and> rstatus r = Some [] \<and> rcontent r = runes ''note''
          \<and> no_outer_space (or_empty (rtitle r)) \<and> no_outer_space (or_empty (rtags r))
          \<and> no_outer_space (or_empty (rstatus r)) \<and> no_outer_space (rcontent r)"
    unfolding g tb TrimSpace_samples by (auto simp: TrimSpace_samples)
  with h show ?thesis by (rule conjI)
qed

end
